theory Spec2Isabelle
  imports Complex_Main "HOL-Library.Sublist" "HOL-Library.Char_ord" "HOL-Library.List_Lexorder"
begin

section \<open>Tensors, errors and the parameter store\<close>

text \<open>
  The entity-aware encoder of \<^verbatim>\<open>src/luke/model.py\<close> is PyTorch code. Tensors are
  modelled as nested lists, innermost the hidden axis; their entries are real numbers, so
  rounding of the floating-point arithmetic is not part of the model, with one exception:
  the constant \<^verbatim>\<open>EPS\<close> is taken at the value it has in the dtype of the tensor it
  is added to. Every operation that raises in PyTorch (an embedding index out of range,
  shapes that do not broadcast, a list index out of range) is a branch returning \<open>Inl\<close>.
\<close>

type_synonym vec = "real list"

text \<open>
  The message that \<^verbatim>\<open>Module._load_from_state_dict\<close> appends for a tensor of the wrong
  shape, "size mismatch for KEY: copying a param with shape S from checkpoint, the shape in
  current model is T.", kept as its three arguments.
\<close>

datatype load_error = SizeMismatch string "nat list" "nat list"

text \<open>
  \<^verbatim>\<open>RuntimeError\<close> carries the class name and the messages that
  \<^verbatim>\<open>load_bert_weights\<close> formats into its text. \<open>NonFinite\<close> is not an exception:
  a floating-point division by zero raises nothing and gives NaN or an infinity, values
  the real numbers do not have. The model ends a run at the division by zero of line 53
  with \<open>Inl NonFinite\<close>; in the code the value flows on into every later result.
\<close>

datatype error =
    IndexError
  | ShapeError
  | RuntimeError string "load_error list"
  | NonFinite

definition ebind :: "error + 'a \<Rightarrow> ('a \<Rightarrow> error + 'b) \<Rightarrow> error + 'b" where
  "ebind m f = (case m of Inl e \<Rightarrow> Inl e | Inr x \<Rightarrow> f x)"

fun mapM :: "('a \<Rightarrow> error + 'b) \<Rightarrow> 'a list \<Rightarrow> error + 'b list" where
  "mapM f [] = Inr []"
| "mapM f (x # xs) =
     (case f x of
        Inl e \<Rightarrow> Inl e
      | Inr y \<Rightarrow> (case mapM f xs of Inl e \<Rightarrow> Inl e | Inr ys \<Rightarrow> Inr (y # ys)))"

text \<open>
  Broadcasting along one axis, as PyTorch does it: equal sizes pair up, a size of one is
  repeated, anything else raises.
\<close>

definition bzipWith :: "('a \<Rightarrow> 'b \<Rightarrow> error + 'c) \<Rightarrow> 'a list \<Rightarrow> 'b list \<Rightarrow> error + 'c list" where
  "bzipWith f xs ys =
     (if length xs = length ys then mapM (\<lambda>(x, y). f x y) (zip xs ys)
      else if length xs = 1 then mapM (f (hd xs)) ys
      else if length ys = 1 then mapM (\<lambda>x. f x (hd ys)) xs
      else Inl ShapeError)"

definition add1 :: "vec \<Rightarrow> vec \<Rightarrow> error + vec" where
  "add1 = bzipWith (\<lambda>a b. Inr (a + b))"

definition add2 :: "vec list \<Rightarrow> vec list \<Rightarrow> error + vec list" where
  "add2 = bzipWith add1"

definition add3 :: "vec list list \<Rightarrow> vec list list \<Rightarrow> error + vec list list" where
  "add3 = bzipWith add2"

definition add4 :: "vec list list list \<Rightarrow> vec list list list \<Rightarrow> error + vec list list list" where
  "add4 = bzipWith add3"

text \<open>Indexed maps, for operations that draw fresh randomness per element.\<close>

definition imap :: "(nat \<Rightarrow> 'a \<Rightarrow> 'b) \<Rightarrow> 'a list \<Rightarrow> 'b list" where
  "imap f xs = map (\<lambda>(i, x). f i x) (zip [0..<length xs] xs)"

text \<open>
  Parameters live in a store: a module holds the address of its weight, and the weight
  itself is read from the store at each forward call. Two modules that hold the same
  address share one parameter. A weight is a matrix, read by row and column; its shape
  is kept by the module that owns it.
\<close>

type_synonym addr = nat
type_synonym matrix = "nat \<Rightarrow> nat \<Rightarrow> real"

record heap =
  cells :: "addr \<Rightarrow> matrix"
  next_addr :: addr

definition alloc :: "matrix \<Rightarrow> heap \<Rightarrow> addr \<times> heap" where
  "alloc m h = (next_addr h, h\<lparr>cells := (cells h)(next_addr h := m), next_addr := Suc (next_addr h)\<rparr>)"

section \<open>torch.nn.Embedding\<close>

text \<open>
  The floating-point types of a parameter. The shape and the dtype of a weight are kept by
  the module that owns it.
\<close>

datatype torch_dtype = Float16 | Float32 | Float64

record Embedding =
  num_embeddings :: nat
  embedding_dim :: nat
  padding_idx :: "nat option"
  weight :: addr
  dtype :: torch_dtype

text \<open>
  \<^verbatim>\<open>nn.Embedding.forward\<close> on one index: the row of the weight, or an error when the
  index is outside the table. \<^verbatim>\<open>padding_idx\<close> plays no part in the forward pass.
\<close>

definition Embedding_forward :: "heap \<Rightarrow> Embedding \<Rightarrow> int \<Rightarrow> error + vec" where
  "Embedding_forward h m i =
     (if 0 \<le> i \<and> i < int (num_embeddings m)
      then Inr (map (cells h (weight m) (nat i)) [0..<embedding_dim m])
      else Inl IndexError)"

text \<open>
  The constructor \<^verbatim>\<open>nn.Embedding(n, d, padding_idx)\<close>: the weight is drawn at random
  (\<open>init\<close> is the draw) and the row of \<^verbatim>\<open>padding_idx\<close> is then filled with zeros.
  A new parameter has the default dtype of PyTorch, \<^verbatim>\<open>float32\<close>.
\<close>

definition Embedding_init :: "nat \<Rightarrow> nat \<Rightarrow> nat option \<Rightarrow> matrix \<Rightarrow> heap \<Rightarrow> Embedding \<times> heap" where
  "Embedding_init n d pad init h =
     (let w = (case pad of None \<Rightarrow> init | Some p \<Rightarrow> (\<lambda>i j. if i = p then 0 else init i j));
          (a, h') = alloc w h
      in (\<lparr>num_embeddings = n, embedding_dim = d, padding_idx = pad, weight = a, dtype = Float32\<rparr>, h'))"

text \<open>
  \<^verbatim>\<open>Module.half()\<close> on an embedding: the weight is cast to \<^verbatim>\<open>float16\<close> (the
  rounding of its entries is not modelled).
\<close>

definition Embedding_half :: "Embedding \<Rightarrow> Embedding" where
  "Embedding_half m = m\<lparr>dtype := Float16\<rparr>"

section \<open>Library modules taken as parameters\<close>

text \<open>
  \<^verbatim>\<open>BertLayerNorm\<close>, \<^verbatim>\<open>BertEmbeddings\<close>, \<^verbatim>\<open>BertLayer\<close>, \<^verbatim>\<open>BertPooler\<close> and
  \<^verbatim>\<open>BertPredictionHeadTransform\<close> come from \<^verbatim>\<open>pytorch_transformers\<close>. A module of
  one of these classes is the address of its parameter block, and the forward functions
  of the classes are parameters of the model, collected in a record.
\<close>

record library =
  BertLayerNorm_forward :: "heap \<Rightarrow> addr \<Rightarrow> vec \<Rightarrow> vec"
  BertEmbeddings_forward :: "heap \<Rightarrow> addr \<Rightarrow> int list list \<Rightarrow> int list list \<Rightarrow> error + vec list list"
  BertLayer_forward :: "heap \<Rightarrow> addr \<Rightarrow> vec list list \<Rightarrow> real list list list list \<Rightarrow> error + vec list list \<times> vec list list list"
  BertPooler_forward :: "heap \<Rightarrow> addr \<Rightarrow> vec list list \<Rightarrow> error + vec list"
  BertPredictionHeadTransform_forward :: "heap \<Rightarrow> addr \<Rightarrow> vec list list \<Rightarrow> error + vec list list"

section \<open>EntityEmbeddings\<close>

definition EPS :: real where
  "EPS = 1 / 10 ^ 12"

text \<open>
  \<^verbatim>\<open>EPS\<close> added to a tensor of the given dtype. The least positive number of
  \<^verbatim>\<open>float16\<close> is 2 to the power -24, about 6e-8, and 1e-12 rounds to 0 there; in
  \<^verbatim>\<open>float32\<close> and \<^verbatim>\<open>float64\<close> it rounds to a positive number, taken as 1e-12.
\<close>

definition eps_in :: "torch_dtype \<Rightarrow> real" where
  "eps_in t = (case t of Float16 \<Rightarrow> 0 | Float32 \<Rightarrow> EPS | Float64 \<Rightarrow> EPS)"

record EntityEmbeddings =
  ee_entity_embeddings :: Embedding
  ee_position_embeddings :: Embedding
  ee_token_type_embeddings :: Embedding
  ee_LayerNorm :: addr

text \<open>
  Lines 49 to 53 of \<^verbatim>\<open>EntityEmbeddings.forward\<close> for one entity slot: the position
  ids are clamped at 0 and looked up, each row is multiplied by the 0/1 mask
  \<^verbatim>\<open>position_ids != -1\<close>, cast to the dtype of the position embeddings, the rows are
  summed over the position axis and the sum is divided by the sum of the mask plus
  \<^verbatim>\<open>EPS\<close>. When that divisor is zero the quotient is not a number.
\<close>

definition sum_rows :: "nat \<Rightarrow> vec list \<Rightarrow> vec" where
  "sum_rows d rows = foldr (map2 (+)) rows (replicate d 0)"

definition position_embedding_mask :: "int list \<Rightarrow> real list" where
  "position_embedding_mask pids = map (\<lambda>p. if p \<noteq> -1 then 1 else 0) pids"

definition position_divisor :: "torch_dtype \<Rightarrow> int list \<Rightarrow> real" where
  "position_divisor t pids = sum_list (position_embedding_mask pids) + eps_in t"

definition position_pool :: "heap \<Rightarrow> Embedding \<Rightarrow> int list \<Rightarrow> error + vec" where
  "position_pool h pe pids =
     ebind (mapM (\<lambda>p. Embedding_forward h pe (max p 0)) pids) (\<lambda>rows.
       let masked = map2 (\<lambda>r m. map (\<lambda>x. x * m) r) rows (position_embedding_mask pids);
           summed = sum_rows (embedding_dim pe) masked
       in if position_divisor (dtype pe) pids = 0 then Inl NonFinite
          else Inr (map (\<lambda>x. x / position_divisor (dtype pe) pids) summed))"

text \<open>\<^verbatim>\<open>Module.half()\<close> on the module: each of its embeddings is cast.\<close>

definition EntityEmbeddings_half :: "EntityEmbeddings \<Rightarrow> EntityEmbeddings" where
  "EntityEmbeddings_half self =
     self\<lparr>ee_entity_embeddings := Embedding_half (ee_entity_embeddings self),
          ee_position_embeddings := Embedding_half (ee_position_embeddings self),
          ee_token_type_embeddings := Embedding_half (ee_token_type_embeddings self)\<rparr>"

text \<open>The position component of the output, for a batch of entity slots.\<close>

definition position_component :: "heap \<Rightarrow> EntityEmbeddings \<Rightarrow> int list list list \<Rightarrow> error + vec list list" where
  "position_component h self position_ids =
     mapM (mapM (position_pool h (ee_position_embeddings self))) position_ids"

text \<open>Line 47: the identity embedding of every entity slot, looked up by the entity id.\<close>

definition identity_component :: "heap \<Rightarrow> EntityEmbeddings \<Rightarrow> int list list \<Rightarrow> error + vec list list" where
  "identity_component h self entity_ids =
     mapM (mapM (Embedding_forward h (ee_entity_embeddings self))) entity_ids"

definition zeros_like :: "int list list \<Rightarrow> int list list" where
  "zeros_like t = map (map (\<lambda>_. 0)) t"

text \<open>
  \<^verbatim>\<open>EntityEmbeddings.forward\<close> on entity ids of shape B x E, position ids of shape
  B x E x P and optional segment ids of shape B x E. \<open>dropout\<close> is the dropout of this call:
  the function it applies to the vector of slot \<open>[b, e]\<close>.
\<close>

definition EntityEmbeddings_forward ::
  "library \<Rightarrow> heap \<Rightarrow> EntityEmbeddings \<Rightarrow> (nat list \<Rightarrow> vec \<Rightarrow> vec) \<Rightarrow>
   int list list \<Rightarrow> int list list list \<Rightarrow> int list list option \<Rightarrow> error + vec list list" where
  "EntityEmbeddings_forward L h self dropout entity_ids position_ids token_type_ids_opt =
     (let token_type_ids = (case token_type_ids_opt of None \<Rightarrow> zeros_like entity_ids | Some t \<Rightarrow> t) in
      ebind (identity_component h self entity_ids) (\<lambda>entity_embeddings.
      ebind (position_component h self position_ids) (\<lambda>position_embeddings.
      ebind (mapM (mapM (Embedding_forward h (ee_token_type_embeddings self))) token_type_ids) (\<lambda>token_type_embeddings.
      ebind (add3 entity_embeddings position_embeddings) (\<lambda>s.
      ebind (add3 s token_type_embeddings) (\<lambda>embeddings.
      Inr (imap (\<lambda>b. imap (\<lambda>e v. dropout [b, e] (BertLayerNorm_forward L h (ee_LayerNorm self) v))) embeddings)))))))"

text \<open>
  The same method as \<^verbatim>\<open>LukeE2EModel.forward\<close> calls it on candidate ids of shape
  B x M x C, with position ids of shape B x M x 1 x P and segment ids of shape B x M x 1:
  the sums broadcast the single position and segment vector of a mention slot over its
  candidates. \<open>dropout\<close> is applied to the vector of candidate \<open>[b, m, c]\<close>.
\<close>

definition EntityEmbeddings_forward3 ::
  "library \<Rightarrow> heap \<Rightarrow> EntityEmbeddings \<Rightarrow> (nat list \<Rightarrow> vec \<Rightarrow> vec) \<Rightarrow>
   int list list list \<Rightarrow> int list list list list \<Rightarrow> int list list list \<Rightarrow> error + vec list list list" where
  "EntityEmbeddings_forward3 L h self dropout entity_ids position_ids token_type_ids =
     ebind (mapM (mapM (mapM (Embedding_forward h (ee_entity_embeddings self)))) entity_ids) (\<lambda>entity_embeddings.
     ebind (mapM (mapM (mapM (position_pool h (ee_position_embeddings self)))) position_ids) (\<lambda>position_embeddings.
     ebind (mapM (mapM (mapM (Embedding_forward h (ee_token_type_embeddings self)))) token_type_ids) (\<lambda>token_type_embeddings.
     ebind (add4 entity_embeddings position_embeddings) (\<lambda>s.
     ebind (add4 s token_type_embeddings) (\<lambda>embeddings.
     Inr (imap (\<lambda>b. imap (\<lambda>m. imap (\<lambda>c v.
            dropout [b, m, c] (BertLayerNorm_forward L h (ee_LayerNorm self) v)))) embeddings))))))"

section \<open>EntitySelector\<close>

record EntitySelector =
  es_transform :: addr
  es_embeddings :: Embedding
  es_bias :: Embedding

definition mul1 :: "vec \<Rightarrow> vec \<Rightarrow> error + vec" where
  "mul1 = bzipWith (\<lambda>a b. Inr (a * b))"

definition mul2 :: "vec list \<Rightarrow> vec list \<Rightarrow> error + vec list" where
  "mul2 = bzipWith mul1"

definition mul3 :: "vec list list \<Rightarrow> vec list list \<Rightarrow> error + vec list list" where
  "mul3 = bzipWith mul2"

definition mul4 :: "vec list list list \<Rightarrow> vec list list list \<Rightarrow> error + vec list list list" where
  "mul4 = bzipWith mul3"

text \<open>\<^verbatim>\<open>squeeze(-1)\<close> of the bias lookup: the bias table has one column.\<close>

definition squeeze_last :: "vec \<Rightarrow> error + real" where
  "squeeze_last v = (case v of [x] \<Rightarrow> Inr x | _ \<Rightarrow> Inl ShapeError)"

definition padding_penalty :: "int \<Rightarrow> real" where
  "padding_penalty i = (if i = 0 then 1 else 0) * (- 10000)"

text \<open>
  \<^verbatim>\<open>EntitySelector.forward\<close> on hidden states of shape B x M x H and candidate ids
  of shape B x M x C: lines 72 to 77 give the dot product of the transformed hidden vector
  with each candidate embedding plus the candidate's bias, and line 78 adds the penalty.
\<close>

definition dot_bias_scores ::
  "library \<Rightarrow> heap \<Rightarrow> EntitySelector \<Rightarrow> vec list list \<Rightarrow> int list list list \<Rightarrow> error + real list list list" where
  "dot_bias_scores L h self hidden_states entity_candidate_ids =
     ebind (mapM (mapM (mapM (Embedding_forward h (es_embeddings self)))) entity_candidate_ids) (\<lambda>entity_embeddings.
     ebind (mapM (mapM (mapM (\<lambda>i. ebind (Embedding_forward h (es_bias self) i) squeeze_last))) entity_candidate_ids) (\<lambda>entity_bias.
     ebind (BertPredictionHeadTransform_forward L h (es_transform self) hidden_states) (\<lambda>hidden_states'.
     ebind (mul4 (map (map (\<lambda>v. [v])) hidden_states') entity_embeddings) (\<lambda>prod.
     add3 (map (map (map sum_list)) prod) entity_bias))))"

definition EntitySelector_forward ::
  "library \<Rightarrow> heap \<Rightarrow> EntitySelector \<Rightarrow> vec list list \<Rightarrow> int list list list \<Rightarrow> error + real list list list" where
  "EntitySelector_forward L h self hidden_states entity_candidate_ids =
     ebind (dot_bias_scores L h self hidden_states entity_candidate_ids) (\<lambda>scores.
     add3 scores (map (map (map padding_penalty)) entity_candidate_ids))"

definition softmax :: "real list \<Rightarrow> real list" where
  "softmax xs = map (\<lambda>x. exp x / sum_list (map exp xs)) xs"

text \<open>Line 199: \<^verbatim>\<open>F.softmax(entity_selector_scores, dim=-1)\<close>.\<close>

definition entity_attention_probs :: "real list list list \<Rightarrow> real list list list" where
  "entity_attention_probs entity_selector_scores = map (map softmax) entity_selector_scores"

section \<open>Configuration and BertEncoder\<close>

text \<open>
  \<^verbatim>\<open>LukeE2EConfig\<close> with the fields of \<^verbatim>\<open>BertConfig\<close> and \<^verbatim>\<open>LukeConfig\<close> that
  the model reads.
\<close>

record LukeE2EConfig =
  hidden_size :: nat
  num_hidden_layers :: nat
  max_position_embeddings :: nat
  type_vocab_size :: nat
  initializer_range :: real
  output_attentions :: bool
  output_hidden_states :: bool
  entity_vocab_size :: nat
  num_el_hidden_layers :: nat
  entity_selector_softmax_temp :: real

text \<open>
  The constructor of a library module allocates its parameter block; \<open>rnd\<close> gives the
  initial random draw of the parameter at each address.
\<close>

definition new_module :: "(addr \<Rightarrow> matrix) \<Rightarrow> heap \<Rightarrow> addr \<times> heap" where
  "new_module rnd h = alloc (rnd (next_addr h)) h"

text \<open>
  \<^verbatim>\<open>BertEncoder\<close> of \<^verbatim>\<open>pytorch_transformers\<close>: its constructor builds
  \<^verbatim>\<open>config.num_hidden_layers\<close> layers, and its forward pass runs every layer it has,
  reading \<^verbatim>\<open>head_mask[i]\<close> for layer \<open>i\<close>; the callers pass a list of \<open>n\<close> times
  \<^verbatim>\<open>None\<close> as the head mask.
\<close>

record BertEncoder =
  enc_output_attentions :: bool
  enc_output_hidden_states :: bool
  layer :: "addr list"

fun new_layers :: "nat \<Rightarrow> (addr \<Rightarrow> matrix) \<Rightarrow> heap \<Rightarrow> addr list \<times> heap" where
  "new_layers 0 rnd h = ([], h)"
| "new_layers (Suc n) rnd h =
     (let (a, h1) = new_module rnd h; (as, h2) = new_layers n rnd h1 in (a # as, h2))"

definition BertEncoder_init :: "LukeE2EConfig \<Rightarrow> (addr \<Rightarrow> matrix) \<Rightarrow> heap \<Rightarrow> BertEncoder \<times> heap" where
  "BertEncoder_init config rnd h =
     (let (ls, h') = new_layers (num_hidden_layers config) rnd h
      in (\<lparr>enc_output_attentions = output_attentions config,
           enc_output_hidden_states = output_hidden_states config,
           layer = ls\<rparr>, h'))"

datatype output_elem =
    Tensor2 "vec list"
  | Tensor3 "vec list list"
  | HiddenStatesTuple "vec list list list"
  | AttentionsTuple "vec list list list list"

fun encoder_layers ::
  "library \<Rightarrow> heap \<Rightarrow> bool \<Rightarrow> bool \<Rightarrow> addr list \<Rightarrow> nat \<Rightarrow> nat \<Rightarrow> vec list list \<Rightarrow> real list list list list \<Rightarrow>
   vec list list list \<Rightarrow> vec list list list list \<Rightarrow>
   error + vec list list \<times> vec list list list \<times> vec list list list list" where
  "encoder_layers L h ohs oa [] i n hidden_states attention_mask all_hidden_states all_attentions =
     Inr (hidden_states, all_hidden_states, all_attentions)"
| "encoder_layers L h ohs oa (layer_module # rest) i n hidden_states attention_mask all_hidden_states all_attentions =
     (let all_hidden_states' = (if ohs then all_hidden_states @ [hidden_states] else all_hidden_states) in
      if n \<le> i then Inl IndexError
      else ebind (BertLayer_forward L h layer_module hidden_states attention_mask) (\<lambda>layer_outputs.
             encoder_layers L h ohs oa rest (Suc i) n (fst layer_outputs) attention_mask all_hidden_states'
               (if oa then all_attentions @ [snd layer_outputs] else all_attentions)))"

definition BertEncoder_forward ::
  "library \<Rightarrow> heap \<Rightarrow> BertEncoder \<Rightarrow> vec list list \<Rightarrow> real list list list list \<Rightarrow> nat \<Rightarrow>
   error + vec list list \<times> output_elem list" where
  "BertEncoder_forward L h self hidden_states attention_mask n =
     ebind (encoder_layers L h (enc_output_hidden_states self) (enc_output_attentions self) (layer self) 0 n
              hidden_states attention_mask [] [])
       (\<lambda>(hidden_states', all_hidden_states, all_attentions).
          Inr (hidden_states',
               (if enc_output_hidden_states self then [HiddenStatesTuple (all_hidden_states @ [hidden_states'])] else [])
               @ (if enc_output_attentions self then [AttentionsTuple all_attentions] else [])))"

section \<open>Constructors of the repository's modules\<close>

definition EntityEmbeddings_init ::
  "LukeE2EConfig \<Rightarrow> nat option \<Rightarrow> (addr \<Rightarrow> matrix) \<Rightarrow> heap \<Rightarrow> EntityEmbeddings \<times> heap" where
  "EntityEmbeddings_init config entity_vocab_size_opt rnd h =
     (let n = (case entity_vocab_size_opt of None \<Rightarrow> entity_vocab_size config | Some n \<Rightarrow> n);
          (ee, h1) = Embedding_init n (hidden_size config) (Some 0) (rnd (next_addr h)) h;
          (pe, h2) = Embedding_init (max_position_embeddings config) (hidden_size config) None (rnd (next_addr h1)) h1;
          (te, h3) = Embedding_init (type_vocab_size config) (hidden_size config) None (rnd (next_addr h2)) h2;
          (ln, h4) = new_module rnd h3
      in (\<lparr>ee_entity_embeddings = ee, ee_position_embeddings = pe,
           ee_token_type_embeddings = te, ee_LayerNorm = ln\<rparr>, h4))"

definition EntitySelector_init :: "LukeE2EConfig \<Rightarrow> (addr \<Rightarrow> matrix) \<Rightarrow> heap \<Rightarrow> EntitySelector \<times> heap" where
  "EntitySelector_init config rnd h =
     (let (tr, h1) = new_module rnd h;
          (em, h2) = Embedding_init (entity_vocab_size config) (hidden_size config) (Some 0) (rnd (next_addr h1)) h1;
          (bi, h3) = Embedding_init (entity_vocab_size config) 1 (Some 0) (rnd (next_addr h2)) h2
      in (\<lparr>es_transform = tr, es_embeddings = em, es_bias = bi\<rparr>, h3))"

section \<open>LukeE2EModel\<close>

record LukeE2EModel =
  config :: LukeE2EConfig
  encoder :: BertEncoder
  pooler :: addr
  embeddings :: addr
  entity_embeddings :: EntityEmbeddings
  mask_entity_embeddings :: EntityEmbeddings
  el_encoder :: BertEncoder
  entity_selector :: EntitySelector

text \<open>
  \<^verbatim>\<open>LukeE2EModel.__init__\<close>, the constructor of \<^verbatim>\<open>LukeBaseModel\<close> included. The
  copy \<^verbatim>\<open>el_config\<close> is made and given the layer count of the entity-linking stack, and
  \<^verbatim>\<open>BertEncoder\<close> is then called on \<^verbatim>\<open>config\<close>, as line 179 has it. The last line
  makes the selector's embedding hold the address of the entity embedding's weight.
\<close>

definition LukeE2EModel_init :: "LukeE2EConfig \<Rightarrow> (addr \<Rightarrow> matrix) \<Rightarrow> heap \<Rightarrow> LukeE2EModel \<times> heap" where
  "LukeE2EModel_init cfg rnd h =
     (let (enc, h1) = BertEncoder_init cfg rnd h;
          (pool, h2) = new_module rnd h1;
          (emb, h3) = new_module rnd h2;
          (ent, h4) = EntityEmbeddings_init cfg None rnd h3;
          (ment, h5) = EntityEmbeddings_init cfg (Some 2) rnd h4;
          el_config = cfg\<lparr>num_hidden_layers := num_el_hidden_layers cfg\<rparr>;
          (elenc, h6) = BertEncoder_init cfg rnd h5;
          (sel, h7) = EntitySelector_init cfg rnd h6;
          sel' = sel\<lparr>es_embeddings := (es_embeddings sel)\<lparr>weight := weight (ee_entity_embeddings ent)\<rparr>\<rparr>
      in (\<lparr>config = cfg, encoder = enc, pooler = pool, embeddings = emb, entity_embeddings = ent,
           mask_entity_embeddings = ment, el_encoder = elenc, entity_selector = sel'\<rparr>, h7))"

record e2e_inputs =
  word_ids :: "int list list"
  word_segment_ids :: "int list list"
  word_attention_mask :: "int list list"
  entity_candidate_ids :: "int list list list"
  entity_position_ids :: "int list list list"
  entity_segment_ids :: "int list list"
  entity_attention_mask :: "int list list"
  masked_entity_labels :: "int list list option"
  output_entity_selector_scores :: bool

text \<open>\<^verbatim>\<open>torch.cat(..., dim=1)\<close>: the batch sizes, and the hidden sizes, must agree.\<close>

definition cat_dim1 :: "'a list list \<Rightarrow> 'a list list \<Rightarrow> error + 'a list list" where
  "cat_dim1 a b = (if length a = length b then Inr (map2 (@) a b) else Inl ShapeError)"

definition hidden_sizes :: "vec list list \<Rightarrow> nat list" where
  "hidden_sizes t = remdups (concat (map (map length) t))"

definition cat_hidden :: "vec list list \<Rightarrow> vec list list \<Rightarrow> error + vec list list" where
  "cat_hidden a b =
     (if length (remdups (hidden_sizes a @ hidden_sizes b)) \<le> 1 then cat_dim1 a b else Inl ShapeError)"

text \<open>\<^verbatim>\<open>t.size(1)\<close> of a tensor with two axes (0 for an empty batch, where nothing reads it).\<close>

definition size1 :: "'a list list \<Rightarrow> nat" where
  "size1 t = (case t of [] \<Rightarrow> 0 | r # _ \<Rightarrow> length r)"

definition compute_extended_attention_mask ::
  "int list list \<Rightarrow> int list list \<Rightarrow> error + real list list list list" where
  "compute_extended_attention_mask word_attention_mask' entity_attention_mask' =
     ebind (cat_dim1 word_attention_mask' entity_attention_mask') (\<lambda>attention_mask.
       Inr (map (\<lambda>row. [[map (\<lambda>x. (1 - real_of_int x) * (- 10000)) row]]) attention_mask))"

text \<open>
  \<^verbatim>\<open>masked_fill\<close> of a tensor of shape B x M x H by a mask of shape B x M x 1: the mask
  is expanded to the shape of the tensor.
\<close>

definition expand_zipWith :: "('a \<Rightarrow> 'b \<Rightarrow> error + 'c) \<Rightarrow> 'a list \<Rightarrow> 'b list \<Rightarrow> error + 'c list" where
  "expand_zipWith f xs ms =
     (if length xs = length ms then mapM (\<lambda>(x, m). f x m) (zip xs ms)
      else if length ms = 1 then mapM (\<lambda>x. f x (hd ms)) xs
      else Inl ShapeError)"

definition masked_fill :: "vec list list \<Rightarrow> bool list list \<Rightarrow> real \<Rightarrow> error + vec list list" where
  "masked_fill t m v =
     expand_zipWith (expand_zipWith (\<lambda>x b. Inr (if b then map (\<lambda>_. v) x else x))) t m"

text \<open>
  The forward pass takes the dropout of each of its three calls of
  \<^verbatim>\<open>EntityEmbeddings.forward\<close> as \<open>dropout 0\<close>, \<open>dropout 1\<close> and \<open>dropout 2\<close>.
  Line 190, the stage-1 entity embeddings:
\<close>

definition mask_entity_embedding_output ::
  "library \<Rightarrow> heap \<Rightarrow> LukeE2EModel \<Rightarrow> (nat \<Rightarrow> nat list \<Rightarrow> vec \<Rightarrow> vec) \<Rightarrow> e2e_inputs \<Rightarrow> error + vec list list" where
  "mask_entity_embedding_output L h self dropout inp =
     EntityEmbeddings_forward L h (mask_entity_embeddings self) (dropout 0)
       (entity_attention_mask inp) (entity_position_ids inp) (Some (entity_segment_ids inp))"

text \<open>Lines 186 to 197: up to the scores that \<^verbatim>\<open>EntitySelector\<close> returns.\<close>

definition raw_entity_selector_scores ::
  "library \<Rightarrow> heap \<Rightarrow> LukeE2EModel \<Rightarrow> (nat \<Rightarrow> nat list \<Rightarrow> vec \<Rightarrow> vec) \<Rightarrow> e2e_inputs \<Rightarrow>
   error + real list list list list \<times> vec list list \<times> real list list list" where
  "raw_entity_selector_scores L h self dropout inp =
     (let word_seq_size = size1 (word_ids inp) in
      ebind (compute_extended_attention_mask (word_attention_mask inp) (entity_attention_mask inp)) (\<lambda>extended_attention_mask.
      ebind (BertEmbeddings_forward L h (embeddings self) (word_ids inp) (word_segment_ids inp)) (\<lambda>word_embedding_output.
      ebind (mask_entity_embedding_output L h self dropout inp) (\<lambda>mask_entity_embedding_output'.
      ebind (cat_hidden word_embedding_output mask_entity_embedding_output') (\<lambda>el_embedding_output.
      ebind (BertEncoder_forward L h (el_encoder self) el_embedding_output extended_attention_mask
               (num_el_hidden_layers (config self))) (\<lambda>el_encoder_outputs.
      let el_entity_sequence_output = map (drop word_seq_size) (fst el_encoder_outputs) in
      ebind (EntitySelector_forward L h (entity_selector self) el_entity_sequence_output (entity_candidate_ids inp)) (\<lambda>scores.
      Inr (extended_attention_mask, word_embedding_output, scores))))))))"

text \<open>Line 198: the scores are divided by the temperature and the variable is rebound.\<close>

definition scale_scores :: "real \<Rightarrow> real list list list \<Rightarrow> real list list list" where
  "scale_scores temp scores = map (map (map (\<lambda>x. x / temp))) scores"

text \<open>
  Lines 199 to 203: soft-max over the candidates and the probability-weighted sum over the
  candidate axis, whose vectors have the hidden size of the configuration.
\<close>

definition mixed_entity_embedding_output ::
  "library \<Rightarrow> heap \<Rightarrow> LukeE2EModel \<Rightarrow> (nat \<Rightarrow> nat list \<Rightarrow> vec \<Rightarrow> vec) \<Rightarrow> e2e_inputs \<Rightarrow>
   real list list list \<Rightarrow> error + vec list list" where
  "mixed_entity_embedding_output L h self dropout inp entity_selector_scores =
     (let entity_attention_probs' = entity_attention_probs entity_selector_scores in
      ebind (EntityEmbeddings_forward3 L h (entity_embeddings self) (dropout 1) (entity_candidate_ids inp)
               (map (map (\<lambda>p. [p])) (entity_position_ids inp))
               (map (map (\<lambda>s. [s])) (entity_segment_ids inp))) (\<lambda>entity_embedding_output.
      ebind (mul4 entity_embedding_output (map (map (map (\<lambda>p. [p]))) entity_attention_probs')) (\<lambda>weighted.
      Inr (map (map (sum_rows (hidden_size (config self)))) weighted))))"

text \<open>Line 207: the embedding of the [MASK] entity, id 2, at every mention slot.\<close>

definition mask_embedding_output ::
  "library \<Rightarrow> heap \<Rightarrow> LukeE2EModel \<Rightarrow> (nat \<Rightarrow> nat list \<Rightarrow> vec \<Rightarrow> vec) \<Rightarrow> e2e_inputs \<Rightarrow> error + vec list list" where
  "mask_embedding_output L h self dropout inp =
     (let mask_entity_ids = map (map (\<lambda>_. 2)) (entity_segment_ids inp) in
      EntityEmbeddings_forward L h (entity_embeddings self) (dropout 2) mask_entity_ids
        (entity_position_ids inp) (Some (entity_segment_ids inp)))"

text \<open>Lines 205 to 210.\<close>

definition denoised_entity_embedding_output ::
  "library \<Rightarrow> heap \<Rightarrow> LukeE2EModel \<Rightarrow> (nat \<Rightarrow> nat list \<Rightarrow> vec \<Rightarrow> vec) \<Rightarrow> e2e_inputs \<Rightarrow>
   vec list list \<Rightarrow> error + vec list list" where
  "denoised_entity_embedding_output L h self dropout inp entity_embedding_output =
     (case masked_entity_labels inp of
        None \<Rightarrow> Inr entity_embedding_output
      | Some labels \<Rightarrow>
          ebind (mask_embedding_output L h self dropout inp) (\<lambda>mask_embedding_output'.
          ebind (masked_fill mask_embedding_output' (map (map (\<lambda>l. l = -1)) labels) 0) (\<lambda>mask_embedding_output''.
          ebind (masked_fill entity_embedding_output (map (map (\<lambda>l. l \<noteq> -1)) labels) 0) (\<lambda>entity_embedding_output'.
          add3 entity_embedding_output' mask_embedding_output''))))"

definition LukeE2EModel_forward ::
  "library \<Rightarrow> heap \<Rightarrow> LukeE2EModel \<Rightarrow> (nat \<Rightarrow> nat list \<Rightarrow> vec \<Rightarrow> vec) \<Rightarrow> e2e_inputs \<Rightarrow> error + output_elem list" where
  "LukeE2EModel_forward L h self dropout inp =
     (let word_seq_size = size1 (word_ids inp) in
      ebind (raw_entity_selector_scores L h self dropout inp) (\<lambda>(extended_attention_mask, word_embedding_output, scores).
      let entity_selector_scores = scale_scores (entity_selector_softmax_temp (config self)) scores in
      ebind (mixed_entity_embedding_output L h self dropout inp entity_selector_scores) (\<lambda>mixed.
      ebind (denoised_entity_embedding_output L h self dropout inp mixed) (\<lambda>entity_embedding_output.
      ebind (cat_hidden word_embedding_output entity_embedding_output) (\<lambda>embedding_output.
      ebind (BertEncoder_forward L h (encoder self) embedding_output extended_attention_mask
               (num_hidden_layers (config self))) (\<lambda>encoder_outputs.
      let sequence_output = fst encoder_outputs;
          word_sequence_output = map (take word_seq_size) sequence_output;
          entity_sequence_output = map (drop word_seq_size) sequence_output in
      ebind (BertPooler_forward L h (pooler self) sequence_output) (\<lambda>pooled_output.
      Inr (if output_entity_selector_scores inp
           then [Tensor3 word_sequence_output, Tensor3 entity_sequence_output, Tensor2 pooled_output,
                 Tensor3 entity_selector_scores] @ snd encoder_outputs
           else [Tensor3 word_sequence_output, Tensor3 entity_sequence_output, Tensor2 pooled_output]
                 @ snd encoder_outputs))))))))"

section \<open>LukeBaseModel.init_weights\<close>

record Linear =
  lin_weight :: addr
  lin_bias :: "addr option"

record BertLayerNorm =
  ln_weight :: addr
  ln_bias :: addr

text \<open>The classes that \<^verbatim>\<open>init_weights\<close> tells apart with \<^verbatim>\<open>isinstance\<close>.\<close>

datatype nn_module =
    Linear_module Linear
  | Embedding_module Embedding
  | BertLayerNorm_module BertLayerNorm
  | Other_module

text \<open>
  In-place fills of a parameter. \<^verbatim>\<open>normal_(mean=0.0, std=s)\<close> overwrites every entry
  with a fresh sample: \<open>draw\<close> is the standard normal draw, scaled by \<open>s\<close>.
\<close>

definition normal_fill :: "real \<Rightarrow> matrix \<Rightarrow> addr \<Rightarrow> heap \<Rightarrow> heap" where
  "normal_fill std draw a h = h\<lparr>cells := (cells h)(a := (\<lambda>i j. std * draw i j))\<rparr>"

definition fill_with :: "real \<Rightarrow> addr \<Rightarrow> heap \<Rightarrow> heap" where
  "fill_with v a h = h\<lparr>cells := (cells h)(a := (\<lambda>i j. v))\<rparr>"

definition zero_fill :: "addr \<Rightarrow> heap \<Rightarrow> heap" where
  "zero_fill a h = fill_with 0 a h"

definition init_weights :: "LukeE2EConfig \<Rightarrow> (addr \<Rightarrow> matrix) \<Rightarrow> nn_module \<Rightarrow> heap \<Rightarrow> heap" where
  "init_weights cfg draw m h =
     (let h1 =
        (case m of
           Linear_module l \<Rightarrow> normal_fill (initializer_range cfg) (draw (lin_weight l)) (lin_weight l) h
         | Embedding_module e \<Rightarrow>
             if embedding_dim e = 1 then zero_fill (weight e) h
             else normal_fill (initializer_range cfg) (draw (weight e)) (weight e) h
         | BertLayerNorm_module n \<Rightarrow> fill_with 1 (ln_weight n) (zero_fill (ln_bias n) h)
         | Other_module \<Rightarrow> h)
      in case m of
           Linear_module l \<Rightarrow> (case lin_bias l of Some b \<Rightarrow> zero_fill b h1 | None \<Rightarrow> h1)
         | _ \<Rightarrow> h1)"

section \<open>LukeBaseModel.load_bert_weights\<close>

text \<open>
  A module tree as \<^verbatim>\<open>torch.nn.Module\<close> keeps it: the entries of \<^verbatim>\<open>_parameters\<close> and
  \<^verbatim>\<open>_buffers\<close> that are not \<^verbatim>\<open>None\<close>, by name, each with the address and the shape
  of its tensor, and the children of \<^verbatim>\<open>_modules\<close>, by name, a child being possibly
  \<^verbatim>\<open>None\<close>.
\<close>

record param =
  p_addr :: addr
  p_shape :: "nat list"

datatype module = Module (m_parameters: "(string \<times> param) list") (m_modules: "(string \<times> module option) list")

record ckpt_tensor =
  t_shape :: "nat list"
  t_data :: matrix

text \<open>A state dict is a Python dict: keys are unique and keep their insertion order.\<close>

type_synonym state_dict = "(string \<times> ckpt_tensor) list"

definition dict_set :: "string \<Rightarrow> 'v \<Rightarrow> (string \<times> 'v) list \<Rightarrow> (string \<times> 'v) list" where
  "dict_set k v d =
     (if k \<in> set (map fst d) then map (\<lambda>(k', v'). if k' = k then (k', v) else (k', v')) d
      else d @ [(k, v)])"

definition dict_del :: "string \<Rightarrow> (string \<times> 'v) list \<Rightarrow> (string \<times> 'v) list" where
  "dict_del k d = filter (\<lambda>(k', v'). k' \<noteq> k) d"

text \<open>
  \<^verbatim>\<open>str.replace(old, new)\<close> for a non-empty \<open>old\<close>: every occurrence, left to right,
  without overlap. The first argument counts the characters of a match still to skip.
\<close>

fun replace_from :: "nat \<Rightarrow> string \<Rightarrow> string \<Rightarrow> string \<Rightarrow> string" where
  "replace_from k old new [] = []"
| "replace_from (Suc k) old new (c # cs) = replace_from k old new cs"
| "replace_from 0 old new (c # cs) =
     (if prefix old (c # cs) then new @ replace_from (length old - 1) old new cs
      else c # replace_from 0 old new cs)"

definition replace :: "string \<Rightarrow> string \<Rightarrow> string \<Rightarrow> string" where
  "replace old new s = replace_from 0 old new s"

definition new_key_of :: "string \<Rightarrow> string" where
  "new_key_of key =
     (let new_key = replace ''beta'' ''bias'' (replace ''gamma'' ''weight'' key)
      in if prefix ''bert.'' new_key then drop 5 new_key else new_key)"

text \<open>Lines 110 to 117: the loop over the keys the dict had on entry.\<close>

definition rename_key :: "string \<Rightarrow> state_dict \<Rightarrow> state_dict" where
  "rename_key key sd =
     (let new_key = new_key_of key in
      if key \<noteq> new_key
      then (case map_of sd key of
              Some v \<Rightarrow> dict_del key (dict_set new_key v sd)
            | None \<Rightarrow> sd)
      else sd)"

definition rename_keys :: "state_dict \<Rightarrow> state_dict" where
  "rename_keys sd = fold rename_key (map fst sd) sd"

record load_state =
  ls_heap :: heap
  missing_keys :: "string list"
  unexpected_keys :: "string list"
  error_msgs :: "load_error list"

text \<open>
  \<^verbatim>\<open>Module._load_from_state_dict\<close> of PyTorch, called with \<^verbatim>\<open>strict=True\<close>, on a
  module without load hooks. For each tensor of the module: when its key is in the state
  dict and the shapes agree the value is copied in, when the shapes differ a message is
  appended and the tensor is skipped, when the key is absent it is appended to the missing
  keys. Then each key of the state dict under the prefix whose next name component is
  neither a child nor a tensor of the module is appended to the unexpected keys. The
  metadata of the state dict, which only feeds the version hooks of library modules, and
  the conversion of one-element vectors for tensors without axes are left out.
\<close>

definition load_param :: "state_dict \<Rightarrow> string \<Rightarrow> string \<times> param \<Rightarrow> load_state \<Rightarrow> load_state" where
  "load_param sd pfx np st =
     (let key = pfx @ fst np; p = snd np in
      case map_of sd key of
        Some input_param \<Rightarrow>
          if t_shape input_param \<noteq> p_shape p
          then st\<lparr>error_msgs := error_msgs st @ [SizeMismatch key (t_shape input_param) (p_shape p)]\<rparr>
          else st\<lparr>ls_heap := (ls_heap st)\<lparr>cells := (cells (ls_heap st))(p_addr p := t_data input_param)\<rparr>\<rparr>
      | None \<Rightarrow> st\<lparr>missing_keys := missing_keys st @ [key]\<rparr>)"

definition is_unexpected :: "string \<Rightarrow> module \<Rightarrow> string \<Rightarrow> bool" where
  "is_unexpected pfx m key =
     (prefix pfx key \<and>
      (let input_name = takeWhile (\<lambda>c. c \<noteq> CHR ''.'') (drop (length pfx) key)
       in input_name \<notin> set (map fst (m_modules m)) \<and> input_name \<notin> set (map fst (m_parameters m))))"

definition load_from_state_dict :: "state_dict \<Rightarrow> string \<Rightarrow> module \<Rightarrow> load_state \<Rightarrow> load_state" where
  "load_from_state_dict sd pfx m st =
     (let st1 = fold (load_param sd pfx) (m_parameters m) st
      in st1\<lparr>unexpected_keys := unexpected_keys st1 @ filter (is_unexpected pfx m) (map fst sd)\<rparr>)"

text \<open>The local function \<^verbatim>\<open>load\<close> of lines 128 to 134.\<close>

fun load :: "state_dict \<Rightarrow> module \<Rightarrow> string \<Rightarrow> load_state \<Rightarrow> load_state"
  and load_children :: "state_dict \<Rightarrow> (string \<times> module option) list \<Rightarrow> string \<Rightarrow> load_state \<Rightarrow> load_state" where
  "load sd (Module ps cs) pfx st = load_children sd cs pfx (load_from_state_dict sd pfx (Module ps cs) st)"
| "load_children sd [] pfx st = st"
| "load_children sd ((name, child) # rest) pfx st =
     load_children sd rest pfx
       (case child of None \<Rightarrow> st | Some m \<Rightarrow> load sd m (pfx @ name @ ''.'') st)"

datatype log_level = DEBUG | INFO | WARNING

text \<open>
  A log record: the level, and for the one message of the method, "Weights from pretrained
  model not used in CLASS: KEYS", the class name and the sorted keys.
\<close>

record log_record =
  level :: log_level
  log_class :: string
  log_keys :: "string list"

text \<open>
  What a call leaves behind: the store, the records logged, and the exception raised, if
  any. The copies made before the exception is raised stay in the store.
\<close>

record load_result =
  res_heap :: heap
  res_log :: "log_record list"
  res_raised :: "error option"

definition loaded_state :: "module \<Rightarrow> state_dict \<Rightarrow> heap \<Rightarrow> load_state" where
  "loaded_state self state_dict h =
     load (rename_keys state_dict) self []
       \<lparr>ls_heap = h, missing_keys = [], unexpected_keys = [], error_msgs = []\<rparr>"

definition load_bert_weights :: "string \<Rightarrow> module \<Rightarrow> state_dict \<Rightarrow> heap \<Rightarrow> load_result" where
  "load_bert_weights class_name self state_dict h =
     (let st = loaded_state self state_dict h;
          log = (if length (unexpected_keys st) > 0
                 then [\<lparr>level = INFO, log_class = class_name, log_keys = sort (unexpected_keys st)\<rparr>]
                 else [])
      in \<lparr>res_heap = ls_heap st, res_log = log,
          res_raised = (if length (error_msgs st) > 0
                        then Some (RuntimeError class_name (error_msgs st)) else None)\<rparr>)"

section \<open>The tensors of a module tree, by path\<close>

text \<open>
  The tensors that \<^verbatim>\<open>load\<close> visits, in its order, each under its dotted path: the
  tensors of the module, then those of each child that is not \<^verbatim>\<open>None\<close>, under the
  prefix extended by the name of the child and a dot.
\<close>

fun named_tensors :: "module \<Rightarrow> string \<Rightarrow> (string \<times> param) list"
  and named_tensors_children :: "(string \<times> module option) list \<Rightarrow> string \<Rightarrow> (string \<times> param) list" where
  "named_tensors (Module ps cs) pfx = map (\<lambda>np. (pfx @ fst np, snd np)) ps @ named_tensors_children cs pfx"
| "named_tensors_children [] pfx = []"
| "named_tensors_children ((name, child) # rest) pfx =
     (case child of None \<Rightarrow> [] | Some m \<Rightarrow> named_tensors m (pfx @ name @ ''.''))
     @ named_tensors_children rest pfx"

text \<open>The messages for the tensors whose checkpoint entry has another shape.\<close>

definition size_mismatches :: "state_dict \<Rightarrow> (string \<times> param) list \<Rightarrow> load_error list" where
  "size_mismatches sd kps =
     concat (map (\<lambda>kp. case map_of sd (fst kp) of
                          Some t \<Rightarrow> if t_shape t \<noteq> p_shape (snd kp)
                                    then [SizeMismatch (fst kp) (t_shape t) (p_shape (snd kp))] else []
                        | None \<Rightarrow> []) kps)"

text \<open>The tensors whose key is in the checkpoint with the shape of the tensor.\<close>

definition loadable :: "state_dict \<Rightarrow> string \<times> param \<Rightarrow> bool" where
  "loadable sd kp = (case map_of sd (fst kp) of Some t \<Rightarrow> t_shape t = p_shape (snd kp) | None \<Rightarrow> False)"

definition loaded_addrs :: "state_dict \<Rightarrow> (string \<times> param) list \<Rightarrow> addr set" where
  "loaded_addrs sd kps = set (map (\<lambda>kp. p_addr (snd kp)) (filter (loadable sd) kps))"

text \<open>
  A model of two tensors, \<^verbatim>\<open>encoder.weight\<close> of shape 2 x 2 at address 0 and
  \<^verbatim>\<open>entity_embeddings.weight\<close> of shape 4 x 2 at address 1, and two checkpoints: one
  of a plain transformer, with the encoder weight under its legacy name and a key the
  model does not have, and one whose encoder weight has the wrong shape.
\<close>

definition ex_module :: module where
  "ex_module =
     Module []
       [(''encoder'', Some (Module [(''weight'', \<lparr>p_addr = 0, p_shape = [2, 2]\<rparr>)] [])),
        (''entity_embeddings'', Some (Module [(''weight'', \<lparr>p_addr = 1, p_shape = [4, 2]\<rparr>)] []))]"

definition ex_state_dict :: state_dict where
  "ex_state_dict =
     [(''bert.encoder.gamma'', \<lparr>t_shape = [2, 2], t_data = (\<lambda>i j. 7)\<rparr>),
      (''cls.bias'', \<lparr>t_shape = [3], t_data = (\<lambda>i j. 9)\<rparr>)]"

definition ex_bad_state_dict :: state_dict where
  "ex_bad_state_dict = [(''encoder.weight'', \<lparr>t_shape = [3, 2], t_data = (\<lambda>i j. 7)\<rparr>)]"

section \<open>The override by the masked-entity labels, as the specification words it\<close>

text \<open>
  A mention slot whose label is not -1 takes the [MASK] embedding, a slot whose label is -1
  keeps the mixed embedding.
\<close>

definition select_by_label :: "vec list list \<Rightarrow> vec list list \<Rightarrow> int list list \<Rightarrow> vec list list" where
  "select_by_label mixed masked labels =
     map2 (\<lambda>(xs, ys) ls. map2 (\<lambda>(x, y) l. if l \<noteq> -1 then y else x) (zip xs ys) ls)
       (zip mixed masked) labels"

text \<open>
  The two embedding tensors have one vector per label and agree in the length of their
  vectors: the shape B x M x H of the forward contract, for labels of shape B x M.
\<close>

definition slot_shapes_agree :: "vec list list \<Rightarrow> vec list list \<Rightarrow> int list list \<Rightarrow> bool" where
  "slot_shapes_agree mixed masked labels =
     (list_all2 (\<lambda>xs ls. length xs = length ls) mixed labels
      \<and> list_all2 (list_all2 (\<lambda>x y. length x = length y)) mixed masked)"

section \<open>The masked mean-pool, as the specification words it\<close>

text \<open>
  The sum of the position embeddings at the real (non -1) position ids, divided by the
  number of real positions plus the epsilon.
\<close>

definition real_positions :: "int list \<Rightarrow> int list" where
  "real_positions pids = filter (\<lambda>p. p \<noteq> -1) pids"

definition masked_mean_pool :: "heap \<Rightarrow> Embedding \<Rightarrow> int list \<Rightarrow> vec" where
  "masked_mean_pool h pe pids =
     map (\<lambda>x. x / (real (length (real_positions pids)) + EPS))
       (sum_rows (embedding_dim pe)
          (map (\<lambda>p. map (cells h (weight pe) (nat p)) [0..<embedding_dim pe]) (real_positions pids)))"

definition valid_position_ids :: "Embedding \<Rightarrow> int list \<Rightarrow> bool" where
  "valid_position_ids pe pids = list_all (\<lambda>p. p = -1 \<or> (0 \<le> p \<and> p < int (num_embeddings pe))) pids"

section \<open>Concrete inputs\<close>

text \<open>
  A small store and small modules, on which the theorems below are instantiated. The
  entry at row \<open>i\<close> and column \<open>j\<close> of the parameter at address \<open>a\<close> is
  \<open>100 a + 10 i + j\<close>.
\<close>

definition ex_heap :: heap where
  "ex_heap = \<lparr>cells = (\<lambda>a i j. real (100 * a + 10 * i + j)), next_addr = 50\<rparr>"

definition ex_entity_embeddings :: EntityEmbeddings where
  "ex_entity_embeddings =
     \<lparr>ee_entity_embeddings = \<lparr>num_embeddings = 4, embedding_dim = 2, padding_idx = Some 0, weight = 0, dtype = Float32\<rparr>,
      ee_position_embeddings = \<lparr>num_embeddings = 8, embedding_dim = 2, padding_idx = None, weight = 1, dtype = Float32\<rparr>,
      ee_token_type_embeddings = \<lparr>num_embeddings = 2, embedding_dim = 2, padding_idx = None, weight = 2, dtype = Float32\<rparr>,
      ee_LayerNorm = 3\<rparr>"

definition ex_config :: LukeE2EConfig where
  "ex_config =
     \<lparr>hidden_size = 2, num_hidden_layers = 3, max_position_embeddings = 8, type_vocab_size = 2,
      initializer_range = 1 / 50, output_attentions = False, output_hidden_states = False,
      entity_vocab_size = 4, num_el_hidden_layers = 1, entity_selector_softmax_temp = 2\<rparr>"

definition ex_rnd :: "addr \<Rightarrow> matrix" where
  "ex_rnd = (\<lambda>a i j. 1)"

definition ex_empty_heap :: heap where
  "ex_empty_heap = \<lparr>cells = (\<lambda>a i j. 0), next_addr = 0\<rparr>"

text \<open>
  A library whose layer norm, prediction-head transform and dropout are the identity,
  whose word embedding of id \<open>i\<close> is the vector \<open>[i, 0]\<close>, whose encoder layer returns
  zeros of the shape of its input, and whose pooler returns the first vector of each
  sequence.
\<close>

definition ex_library :: library where
  "ex_library =
     \<lparr>BertLayerNorm_forward = (\<lambda>h a v. v),
      BertEmbeddings_forward = (\<lambda>h a ids segs. Inr (map (map (\<lambda>i. [real_of_int i, 0])) ids)),
      BertLayer_forward = (\<lambda>h a x m. Inr (map (map (map (\<lambda>_. 0))) x, [])),
      BertPooler_forward = (\<lambda>h a x. Inr (map (\<lambda>row. case row of [] \<Rightarrow> [] | v # _ \<Rightarrow> v) x)),
      BertPredictionHeadTransform_forward = (\<lambda>h a x. Inr x)\<rparr>"

definition ex_dropout :: "nat \<Rightarrow> nat list \<Rightarrow> vec \<Rightarrow> vec" where
  "ex_dropout = (\<lambda>k idx v. v)"

definition ex_config1 :: LukeE2EConfig where
  "ex_config1 = ex_config\<lparr>num_hidden_layers := 1\<rparr>"

definition ex_model :: LukeE2EModel where
  "ex_model = fst (LukeE2EModel_init ex_config1 ex_rnd ex_empty_heap)"

definition ex_model_heap :: heap where
  "ex_model_heap = snd (LukeE2EModel_init ex_config1 ex_rnd ex_empty_heap)"

text \<open>
  One example with one word and two mention slots of two candidates each; the first slot
  is not masked (label -1), the second is masked with the label 3.
\<close>

definition ex_inputs :: e2e_inputs where
  "ex_inputs =
     \<lparr>word_ids = [[7]], word_segment_ids = [[0]], word_attention_mask = [[1]],
      entity_candidate_ids = [[[1, 0], [2, 0]]], entity_position_ids = [[[0], [-1]]],
      entity_segment_ids = [[0, 0]], entity_attention_mask = [[1, 0]],
      masked_entity_labels = Some [[-1, 3]], output_entity_selector_scores = True\<rparr>"

text \<open>
  An entity selector over four entities with hidden size 2, and a store in which the
  embedding row of the padding id 0 is \<open>[20000, 0]\<close> and every other entry is 0.
\<close>

definition ex_selector :: EntitySelector where
  "ex_selector =
     \<lparr>es_transform = 2,
      es_embeddings = \<lparr>num_embeddings = 4, embedding_dim = 2, padding_idx = Some 0, weight = 0, dtype = Float32\<rparr>,
      es_bias = \<lparr>num_embeddings = 4, embedding_dim = 1, padding_idx = Some 0, weight = 1, dtype = Float32\<rparr>\<rparr>"

text \<open>A store in which the bias of entity 1 is -3 and every other entry is 0.\<close>

definition ex_low_heap :: heap where
  "ex_low_heap = \<lparr>cells = (\<lambda>a i j. if a = 1 \<and> i = 1 then - 3 else 0), next_addr = 3\<rparr>"

definition ex_pad_heap :: heap where
  "ex_pad_heap = \<lparr>cells = (\<lambda>a i j. if a = 0 \<and> i = 0 \<and> j = 0 then 20000 else 0), next_addr = 3\<rparr>"

section \<open>Lemmas on the error monad\<close>

lemma ebind_Inl [simp]: "ebind (Inl e) f = Inl e"
  by (simp add: ebind_def)

lemma ebind_Inr [simp]: "ebind (Inr x) f = f x"
  by (simp add: ebind_def)

lemma ebind_eq_Inr: "ebind m f = Inr y \<longleftrightarrow> (\<exists>x. m = Inr x \<and> f x = Inr y)"
  by (cases m) simp_all

lemma imap_Nil [simp]: "imap f [] = []"
  by (simp add: imap_def)

lemma imap_Cons [simp]: "imap f (x # xs) = f 0 x # imap (\<lambda>i. f (Suc i)) xs"
proof -
  have "zip [0..<Suc (length xs)] (x # xs) = (0, x) # zip (map Suc [0..<length xs]) xs"
    by (simp add: upt_conv_Cons map_Suc_upt del: upt_Suc)
  then show ?thesis
    by (simp add: imap_def zip_map1 case_prod_beta del: upt_Suc)
qed

lemma upt_0_2: "[0..<2] = [0, Suc 0]"
  by (simp add: upt_rec numeral_2_eq_2)

lemma mapM_Inr_map:
  "list_all (\<lambda>x. f x = Inr (g x)) xs \<Longrightarrow> mapM f xs = Inr (map g xs)"
  by (induction xs) auto

lemma mapM_Inr_length:
  "mapM f xs = Inr ys \<Longrightarrow> length ys = length xs"
  by (induction xs arbitrary: ys) (auto split: sum.splits)

lemma mapM_Inr_nth:
  "mapM f xs = Inr ys \<Longrightarrow> i < length xs \<Longrightarrow> f (xs ! i) = Inr (ys ! i)"
proof (induction xs arbitrary: ys i)
  case Nil
  then show ?case by simp
next
  case (Cons x xs)
  then show ?case
    by (cases i) (auto split: sum.splits)
qed

section \<open>Lemmas on tensors of one shape\<close>

lemma length_imap [simp]: "length (imap f xs) = length xs"
  by (simp add: imap_def)

lemma mapM_zip_Inr:
  "list_all2 (\<lambda>x y. f x y = Inr (g x y)) xs ys \<Longrightarrow> mapM (\<lambda>(x, y). f x y) (zip xs ys) = Inr (map2 g xs ys)"
  by (induction xs ys rule: list_all2_induct) auto

lemma expand_zipWith_Inr:
  assumes "list_all2 (\<lambda>x m. f x m = Inr (g x m)) xs ms"
  shows "expand_zipWith f xs ms = Inr (map2 g xs ms)"
  using assms mapM_zip_Inr[OF assms]
  by (simp add: expand_zipWith_def list_all2_lengthD)

lemma bzipWith_Inr:
  assumes "list_all2 (\<lambda>x y. f x y = Inr (g x y)) xs ys"
  shows "bzipWith f xs ys = Inr (map2 g xs ys)"
  using assms mapM_zip_Inr[OF assms]
  by (simp add: bzipWith_def list_all2_lengthD)

lemma add1_same_length:
  "length x = length y \<Longrightarrow> add1 x y = Inr (map2 (+) x y)"
  unfolding add1_def by (rule bzipWith_Inr) (simp add: list_all2_conv_all_nth)

lemma add2_same_shape:
  assumes "list_all2 (\<lambda>x y. length x = length y) a b"
  shows "add2 a b = Inr (map2 (map2 (+)) a b)"
  unfolding add2_def
  by (rule bzipWith_Inr) (rule list_all2_mono[OF assms], simp add: add1_same_length)

lemma add3_same_shape:
  assumes "list_all2 (list_all2 (\<lambda>x y. length x = length y)) a b"
  shows "add3 a b = Inr (map2 (map2 (map2 (+))) a b)"
  unfolding add3_def
  by (rule bzipWith_Inr) (rule list_all2_mono[OF assms], simp add: add2_same_shape)

section \<open>The position component of EntityEmbeddings.forward\<close>

lemma length_sum_rows:
  "list_all (\<lambda>r. length r = d) rows \<Longrightarrow> length (sum_rows d rows) = d"
  by (induction rows) (auto simp: sum_rows_def)

lemma map2_add_zero_row:
  fixes r :: vec
  shows "length acc = length r \<Longrightarrow> map2 (+) (map (\<lambda>x. x * 0) r) acc = acc"
  by (induction r arbitrary: acc) (auto simp: length_Suc_conv)

text \<open>Rows multiplied by the mask and summed are the rows at the real positions, summed.\<close>

lemma masked_rows_sum:
  fixes rowf :: "int \<Rightarrow> vec"
  assumes "\<And>p. length (rowf p) = d"
  shows "sum_rows d (map2 (\<lambda>r m. map (\<lambda>x. x * m) r) (map rowf pids) (position_embedding_mask pids))
       = sum_rows d (map rowf (real_positions pids))"
proof (induction pids)
  case Nil
  show ?case by (simp add: position_embedding_mask_def real_positions_def)
next
  case (Cons p pids)
  have len: "length (sum_rows d (map rowf (real_positions pids))) = d"
    by (rule length_sum_rows) (simp add: list_all_iff assms)
  show ?case
  proof (cases "p = -1")
    case True
    have "map2 (+) (map (\<lambda>x. x * 0) (rowf (-1))) (sum_rows d (map rowf (real_positions pids)))
          = sum_rows d (map rowf (real_positions pids))"
      by (rule map2_add_zero_row) (simp add: assms len)
    with True Cons show ?thesis
      by (simp add: position_embedding_mask_def real_positions_def sum_rows_def)
  next
    case False
    with Cons show ?thesis
      by (simp add: position_embedding_mask_def real_positions_def sum_rows_def)
  qed
qed

lemma sum_position_embedding_mask:
  "sum_list (position_embedding_mask pids) = real (length (real_positions pids))"
  by (induction pids) (auto simp: position_embedding_mask_def real_positions_def)

lemma EPS_nonzero: "EPS \<noteq> 0" "1 + EPS \<noteq> 0"
  by (simp_all add: EPS_def)

lemma eps_in_not_half: "t \<noteq> Float16 \<Longrightarrow> eps_in t = EPS"
  by (cases t) (simp_all add: eps_in_def)

lemma position_divisor_pos: "t \<noteq> Float16 \<Longrightarrow> 0 < position_divisor t pids"
proof -
  assume "t \<noteq> Float16"
  moreover have "0 < EPS" by (simp add: EPS_def)
  ultimately show ?thesis
    by (simp add: position_divisor_def eps_in_not_half sum_position_embedding_mask add_nonneg_pos)
qed

lemma position_lookup_valid:
  assumes "0 < num_embeddings pe" and "valid_position_ids pe pids"
  shows "mapM (\<lambda>p. Embedding_forward h pe (max p 0)) pids
         = Inr (map (\<lambda>p. map (cells h (weight pe) (nat (max p 0))) [0..<embedding_dim pe]) pids)"
  using assms
  by (intro mapM_Inr_map) (auto simp: valid_position_ids_def list_all_iff Embedding_forward_def)

lemma position_pool_masked_mean_pool:
  assumes "0 < num_embeddings pe" and "valid_position_ids pe pids" and "dtype pe \<noteq> Float16"
  shows "position_pool h pe pids = Inr (masked_mean_pool h pe pids)"
proof -
  have nz: "position_divisor (dtype pe) pids \<noteq> 0"
    using position_divisor_pos[OF assms(3), of pids] by simp
  let ?rowf = "\<lambda>p. map (cells h (weight pe) (nat (max p 0))) [0..<embedding_dim pe]"
  have same: "map ?rowf (real_positions pids)
      = map (\<lambda>p. map (cells h (weight pe) (nat p)) [0..<embedding_dim pe]) (real_positions pids)"
    using assms(2)
    by (auto simp: real_positions_def valid_position_ids_def list_all_iff max_def)
  have "sum_rows (embedding_dim pe)
          (map2 (\<lambda>r m. map (\<lambda>x. x * m) r) (map ?rowf pids) (position_embedding_mask pids))
        = sum_rows (embedding_dim pe) (map ?rowf (real_positions pids))"
    by (rule masked_rows_sum) simp
  then show ?thesis
    unfolding position_pool_def position_lookup_valid[OF assms(1,2)]
    using nz
    by (simp add: ebind_def masked_mean_pool_def same position_divisor_def
        eps_in_not_half[OF assms(3)] sum_position_embedding_mask Let_def)
qed

lemma masked_mean_pool_no_real:
  "real_positions pids = [] \<Longrightarrow> masked_mean_pool h pe pids = replicate (embedding_dim pe) 0"
  by (simp add: masked_mean_pool_def sum_rows_def map_replicate_const)

text \<open>
  The masked mean-pool in single and double precision. When the position embeddings are
  stored in \<^verbatim>\<open>float32\<close> or \<^verbatim>\<open>float64\<close>, the position table is not empty and every
  position id is -1 or an index of the table, the position component that
  \<^verbatim>\<open>EntityEmbeddings.forward\<close> computes is, at every entity slot, the masked mean-pool
  of the specification: the sum of the position embeddings at the ids other than -1,
  divided by their number plus \<open>EPS\<close>. The divisor is not zero, and at a slot whose
  position ids are all -1 the component is the zero vector.
\<close>

theorem position_component_masked_mean_pool:
  assumes "0 < num_embeddings (ee_position_embeddings self)"
    and "list_all (list_all (valid_position_ids (ee_position_embeddings self))) position_ids"
    and "dtype (ee_position_embeddings self) \<noteq> Float16"
  shows "position_component h self position_ids
           = Inr (map (map (masked_mean_pool h (ee_position_embeddings self))) position_ids)
         \<and> (\<forall>slots \<in> set position_ids. \<forall>pids \<in> set slots.
              position_divisor (dtype (ee_position_embeddings self)) pids \<noteq> 0
              \<and> (real_positions pids = [] \<longrightarrow>
                   position_pool h (ee_position_embeddings self) pids
                     = Inr (replicate (embedding_dim (ee_position_embeddings self)) 0)))"
proof (intro conjI ballI)
  have "list_all (\<lambda>slots. mapM (position_pool h (ee_position_embeddings self)) slots
          = Inr (map (masked_mean_pool h (ee_position_embeddings self)) slots)) position_ids"
    using assms
    by (auto simp: list_all_iff intro!: mapM_Inr_map position_pool_masked_mean_pool)
  then show "position_component h self position_ids
           = Inr (map (map (masked_mean_pool h (ee_position_embeddings self))) position_ids)"
    unfolding position_component_def by (rule mapM_Inr_map)
next
  fix slots pids
  show "position_divisor (dtype (ee_position_embeddings self)) pids \<noteq> 0"
    using position_divisor_pos[OF assms(3), of pids] by simp
  assume "slots \<in> set position_ids" and "pids \<in> set slots"
  then have "valid_position_ids (ee_position_embeddings self) pids"
    using assms(2) by (auto simp: list_all_iff)
  then show "real_positions pids = [] \<longrightarrow>
          position_pool h (ee_position_embeddings self) pids
            = Inr (replicate (embedding_dim (ee_position_embeddings self)) 0)"
    by (simp add: position_pool_masked_mean_pool[OF assms(1) _ assms(3)] masked_mean_pool_no_real)
qed

text \<open>
  The scenario of the specification: one example, a slot with the real positions 2 and 3
  and a slot that is all padding.
\<close>

theorem position_component_masked_mean_pool_witness:
  "position_component ex_heap ex_entity_embeddings [[[2, 3], [-1, -1]]]
     = Inr [[[250 / (2 + EPS), 252 / (2 + EPS)], [0, 0]]]"
  using position_component_masked_mean_pool[of ex_entity_embeddings "[[[2, 3], [-1, -1]]]" ex_heap]
  by (simp add: ex_entity_embeddings_def ex_heap_def valid_position_ids_def masked_mean_pool_def
      real_positions_def sum_rows_def upt_rec numeral_2_eq_2)

text \<open>
  Claim C1, at the same scenario after \<^verbatim>\<open>half()\<close>. The mask is cast to the dtype of the
  position embeddings and \<^verbatim>\<open>EPS\<close> is 0 in \<^verbatim>\<open>float16\<close>: the divisor of the slot
  whose position ids are all -1 is 0, and its position component is 0/0, not the zero
  vector that the \<^verbatim>\<open>EPS\<close> of line 53 is there to give.
\<close>

theorem position_component_half_precision:
  "position_divisor Float16 [-1, -1] = 0
   \<and> position_pool ex_heap (ee_position_embeddings (EntityEmbeddings_half ex_entity_embeddings)) [-1, -1]
       = Inl NonFinite
   \<and> position_component ex_heap (EntityEmbeddings_half ex_entity_embeddings) [[[2, 3], [-1, -1]]]
       = Inl NonFinite"
  by (simp add: position_component_def position_pool_def position_divisor_def position_embedding_mask_def
      eps_in_def EntityEmbeddings_half_def Embedding_half_def ex_entity_embeddings_def ex_heap_def
      Embedding_forward_def sum_rows_def upt_0_2 Let_def)

section \<open>The output of EntityEmbeddings.forward\<close>

lemma mapM2_shape:
  assumes "mapM (mapM f) xss = Inr yss"
  shows "length yss = length xss"
    and "b < length xss \<Longrightarrow> length (yss ! b) = length (xss ! b)"
    and "b < length xss \<Longrightarrow> e < length (xss ! b) \<Longrightarrow> f (xss ! b ! e) = Inr (yss ! b ! e)"
proof -
  show "length yss = length xss" using assms by (rule mapM_Inr_length)
  have row: "mapM f (xss ! b) = Inr (yss ! b)" if "b < length xss" for b
    using assms that by (rule mapM_Inr_nth)
  show "b < length xss \<Longrightarrow> length (yss ! b) = length (xss ! b)"
    using row by (auto dest: mapM_Inr_length)
  show "b < length xss \<Longrightarrow> e < length (xss ! b) \<Longrightarrow> f (xss ! b ! e) = Inr (yss ! b ! e)"
    using row by (auto dest: mapM_Inr_nth)
qed

lemma length_Embedding_forward:
  "Embedding_forward h m i = Inr v \<Longrightarrow> length v = embedding_dim m"
  by (auto simp: Embedding_forward_def split: if_splits)

lemma length_position_pool:
  assumes "position_pool h pe pids = Inr v"
  shows "length v = embedding_dim pe"
proof -
  from assms obtain rows where
    rows: "mapM (\<lambda>p. Embedding_forward h pe (max p 0)) pids = Inr rows"
    and v: "v = map (\<lambda>x. x / position_divisor (dtype pe) pids)
                 (sum_rows (embedding_dim pe)
                    (map2 (\<lambda>r m. map (\<lambda>x. x * m) r) rows (position_embedding_mask pids)))"
    by (auto simp: position_pool_def ebind_eq_Inr Let_def split: if_splits)
  have "list_all (\<lambda>r. length r = embedding_dim pe) rows"
    unfolding list_all_length
  proof (intro allI impI)
    fix i assume "i < length rows"
    then have "i < length pids" using rows by (simp add: mapM_Inr_length)
    from mapM_Inr_nth[OF rows this] show "length (rows ! i) = embedding_dim pe"
      by (rule length_Embedding_forward)
  qed
  then have "list_all (\<lambda>r. length r = embedding_dim pe)
      (map2 (\<lambda>r m. map (\<lambda>x. x * m) r) rows (position_embedding_mask pids))"
    by (auto simp: list_all_length)
  then show ?thesis
    by (simp add: v length_sum_rows)
qed

text \<open>
  The output of \<^verbatim>\<open>EntityEmbeddings.forward\<close> when its three lookups return tensors of
  one shape: layer norm and dropout of the sum of the three terms, slot by slot.
\<close>

lemma EntityEmbeddings_forward_explicit:
  assumes I: "identity_component h self entity_ids = Inr I"
    and P: "position_component h self position_ids = Inr P"
    and T: "mapM (mapM (Embedding_forward h (ee_token_type_embeddings self))) tt = Inr Tk"
    and IP: "list_all2 (list_all2 (\<lambda>x y. length x = length y)) I P"
    and IT: "list_all2 (list_all2 (\<lambda>x y. length x = length y)) I Tk"
  shows "EntityEmbeddings_forward L h self dropout entity_ids position_ids (Some tt)
     = Inr (imap (\<lambda>b. imap (\<lambda>e v. dropout [b, e] (BertLayerNorm_forward L h (ee_LayerNorm self) v)))
             (map2 (map2 (map2 (+))) (map2 (map2 (map2 (+))) I P) Tk))"
proof -
  have s1: "add3 I P = Inr (map2 (map2 (map2 (+))) I P)"
    by (rule add3_same_shape[OF IP])
  have "list_all2 (list_all2 (\<lambda>x y. length x = length y)) (map2 (map2 (map2 (+))) I P) Tk"
    using IP IT by (auto simp: list_all2_conv_all_nth)
  then have s2: "add3 (map2 (map2 (map2 (+))) I P) Tk
      = Inr (map2 (map2 (map2 (+))) (map2 (map2 (map2 (+))) I P) Tk)"
    by (rule add3_same_shape)
  show ?thesis
    by (simp add: EntityEmbeddings_forward_def I P T s1 s2)
qed



section \<open>The default segment ids\<close>

lemma identity_component_shape:
  assumes "identity_component h self entity_ids = Inr I"
  shows "length I = length entity_ids"
    and "b < length entity_ids \<Longrightarrow> length (I ! b) = length (entity_ids ! b)"
    and "b < length entity_ids \<Longrightarrow> e < length (entity_ids ! b)
         \<Longrightarrow> length (I ! b ! e) = embedding_dim (ee_entity_embeddings self)"
  using mapM2_shape[OF assms[unfolded identity_component_def]]
  by (auto dest: length_Embedding_forward)

lemma token_type_zero_rows:
  fixes entity_ids :: "int list list"
  assumes "0 < num_embeddings tok"
  shows "mapM (mapM (Embedding_forward h tok)) (map (map (\<lambda>_. 0)) entity_ids)
         = Inr (map (map (\<lambda>_. map (cells h (weight tok) 0) [0..<embedding_dim tok])) entity_ids)"
proof -
  have one: "mapM (Embedding_forward h tok) (map (\<lambda>_. 0) row)
      = Inr (map (\<lambda>_. map (cells h (weight tok) 0) [0..<embedding_dim tok]) row)" for row :: "int list"
    using assms by (induction row) (simp_all add: Embedding_forward_def)
  show ?thesis
    by (induction entity_ids) (simp_all add: one)
qed

text \<open>
  Claim C10. A call of \<^verbatim>\<open>EntityEmbeddings.forward\<close> without \<^verbatim>\<open>token_type_ids\<close>
  returns what the same call returns with the segment id 0 at every entity slot; and when
  the identity and position lookups return tensors of one shape and the segment table is
  not empty, its output is layer norm and dropout of the sum of the identity term, the
  position term and row 0 of the segment table, at every slot.
\<close>

theorem forward_default_token_type_ids:
  "EntityEmbeddings_forward L h self dropout entity_ids position_ids None
     = EntityEmbeddings_forward L h self dropout entity_ids position_ids (Some (map (map (\<lambda>_. 0)) entity_ids))
   \<and> (identity_component h self entity_ids = Inr I
        \<and> position_component h self position_ids = Inr P
        \<and> list_all2 (list_all2 (\<lambda>x y. length x = length y)) I P
        \<and> 0 < num_embeddings (ee_token_type_embeddings self)
        \<and> embedding_dim (ee_token_type_embeddings self) = embedding_dim (ee_entity_embeddings self)
      \<longrightarrow> EntityEmbeddings_forward L h self dropout entity_ids position_ids None
          = Inr (imap (\<lambda>b. imap (\<lambda>e v. dropout [b, e] (BertLayerNorm_forward L h (ee_LayerNorm self) v)))
                  (map2 (map2 (map2 (+))) (map2 (map2 (map2 (+))) I P)
                     (map (map (\<lambda>_. map (cells h (weight (ee_token_type_embeddings self)) 0)
                                        [0..<embedding_dim (ee_token_type_embeddings self)]))
                        entity_ids))))"
proof (intro conjI impI)
  show none: "EntityEmbeddings_forward L h self dropout entity_ids position_ids None
     = EntityEmbeddings_forward L h self dropout entity_ids position_ids (Some (map (map (\<lambda>_. 0)) entity_ids))"
    by (simp add: EntityEmbeddings_forward_def zeros_like_def)
  let ?tok = "ee_token_type_embeddings self"
  let ?Tk = "map (map (\<lambda>_. map (cells h (weight ?tok) 0) [0..<embedding_dim ?tok])) entity_ids"
  assume a: "identity_component h self entity_ids = Inr I
        \<and> position_component h self position_ids = Inr P
        \<and> list_all2 (list_all2 (\<lambda>x y. length x = length y)) I P
        \<and> 0 < num_embeddings ?tok
        \<and> embedding_dim ?tok = embedding_dim (ee_entity_embeddings self)"
  then have I: "identity_component h self entity_ids = Inr I"
    and P: "position_component h self position_ids = Inr P"
    and IP: "list_all2 (list_all2 (\<lambda>x y. length x = length y)) I P"
    and n: "0 < num_embeddings ?tok"
    and d: "embedding_dim ?tok = embedding_dim (ee_entity_embeddings self)"
    by simp_all
  have T: "mapM (mapM (Embedding_forward h ?tok)) (map (map (\<lambda>_. 0)) entity_ids) = Inr ?Tk"
    by (rule token_type_zero_rows[OF n])
  have IT: "list_all2 (list_all2 (\<lambda>x y. length x = length y)) I ?Tk"
    using identity_component_shape[OF I] d by (auto simp: list_all2_conv_all_nth)
  show "EntityEmbeddings_forward L h self dropout entity_ids position_ids None
          = Inr (imap (\<lambda>b. imap (\<lambda>e v. dropout [b, e] (BertLayerNorm_forward L h (ee_LayerNorm self) v)))
                  (map2 (map2 (map2 (+))) (map2 (map2 (map2 (+))) I P) ?Tk))"
    unfolding none by (rule EntityEmbeddings_forward_explicit[OF I P T IP IT])
qed

lemmas ee_defs = identity_component_def position_component_def position_pool_def Embedding_forward_def
  position_embedding_mask_def position_divisor_def eps_in_def EPS_nonzero sum_rows_def upt_0_2 Let_def
  ex_entity_embeddings_def ex_heap_def

lemma two_EPS_nonzero: "2 + EPS \<noteq> 0"
  by (simp add: EPS_def)

lemma ex_identity:
  "identity_component ex_heap ex_entity_embeddings [[1, 0]] = Inr [[[10, 11], [0, 1]]]"
  by (simp add: ee_defs)

lemma ex_position:
  "position_component ex_heap ex_entity_embeddings [[[2, 3], [-1, -1]]]
     = Inr [[[250 / (2 + EPS), 252 / (2 + EPS)], [0, 0]]]"
  by (simp add: ee_defs two_EPS_nonzero numeral_2_eq_2)

theorem forward_default_token_type_ids_witness:
  "EntityEmbeddings_forward ex_library ex_heap ex_entity_embeddings (ex_dropout 0)
       [[1, 0]] [[[2, 3], [-1, -1]]] None
     = Inr [[[210 + 250 / (2 + EPS), 212 + 252 / (2 + EPS)], [200, 202]]]"
proof -
  have sh: "list_all2 (list_all2 (\<lambda>x y. length x = length y))
      [[[10, 11], [0, 1 :: real]]] [[[250 / (2 + EPS), 252 / (2 + EPS)], [0, 0]]]"
    by simp
  have tk: "0 < num_embeddings (ee_token_type_embeddings ex_entity_embeddings)
      \<and> embedding_dim (ee_token_type_embeddings ex_entity_embeddings)
        = embedding_dim (ee_entity_embeddings ex_entity_embeddings)"
    by (simp add: ex_entity_embeddings_def)
  from forward_default_token_type_ids[of ex_library ex_heap ex_entity_embeddings "ex_dropout 0"
      "[[1, 0]]" "[[[2, 3], [-1, -1]]]" "[[[10, 11], [0, 1]]]"
      "[[[250 / (2 + EPS), 252 / (2 + EPS)], [0, 0]]]"]
    ex_identity ex_position sh tk
  have "EntityEmbeddings_forward ex_library ex_heap ex_entity_embeddings (ex_dropout 0)
       [[1, 0]] [[[2, 3], [-1, -1]]] None
     = Inr (imap (\<lambda>b. imap (\<lambda>e v. ex_dropout 0 [b, e]
                (BertLayerNorm_forward ex_library ex_heap (ee_LayerNorm ex_entity_embeddings) v)))
             (map2 (map2 (map2 (+)))
                (map2 (map2 (map2 (+))) [[[10, 11], [0, 1]]] [[[250 / (2 + EPS), 252 / (2 + EPS)], [0, 0]]])
                (map (map (\<lambda>_. map (cells ex_heap (weight (ee_token_type_embeddings ex_entity_embeddings)) 0)
                                        [0..<embedding_dim (ee_token_type_embeddings ex_entity_embeddings)]))
                        [[1, 0 :: int]])))"
    by blast
  then show ?thesis
    by (simp add: ex_entity_embeddings_def ex_heap_def ex_library_def ex_dropout_def upt_0_2)
qed

section \<open>The constructor of LukeE2EModel\<close>

lemma init_selector_embeddings:
  "es_embeddings (entity_selector (fst (LukeE2EModel_init cfg rnd h)))
     = ee_entity_embeddings (entity_embeddings (fst (LukeE2EModel_init cfg rnd h)))"
  by (simp add: LukeE2EModel_init_def EntitySelector_init_def EntityEmbeddings_init_def
      Embedding_init_def Let_def split_def)

text \<open>
  Claim C4. In a model built by \<^verbatim>\<open>LukeE2EModel.__init__\<close> the embedding of the
  entity selector and the entity-identity embedding hold the same address: a weight
  written through the entity embedding is the weight read through the selector, and in
  every later state of the store the two embeddings return the same row for every id.
\<close>

theorem tied_entity_embedding_weight:
  "weight (es_embeddings (entity_selector (fst (LukeE2EModel_init cfg rnd h))))
     = weight (ee_entity_embeddings (entity_embeddings (fst (LukeE2EModel_init cfg rnd h))))
   \<and> (\<forall>h' w. cells (h'\<lparr>cells := (cells h')
                (weight (ee_entity_embeddings (entity_embeddings (fst (LukeE2EModel_init cfg rnd h)))) := w)\<rparr>)
              (weight (es_embeddings (entity_selector (fst (LukeE2EModel_init cfg rnd h))))) = w)
   \<and> (\<forall>h' i. Embedding_forward h' (es_embeddings (entity_selector (fst (LukeE2EModel_init cfg rnd h)))) i
          = Embedding_forward h' (ee_entity_embeddings (entity_embeddings (fst (LukeE2EModel_init cfg rnd h)))) i)"
  by (simp add: init_selector_embeddings)

lemma length_new_layers: "length (fst (new_layers n rnd h)) = n"
  by (induction n arbitrary: h) (auto simp: split_def Let_def)

lemma el_encoder_layers:
  "length (layer (el_encoder (fst (LukeE2EModel_init cfg rnd h)))) = num_hidden_layers cfg"
  by (simp add: LukeE2EModel_init_def BertEncoder_init_def Let_def split_def length_new_layers)

lemma init_config: "config (fst (LukeE2EModel_init cfg rnd h)) = cfg"
  by (simp add: LukeE2EModel_init_def Let_def split_def)

text \<open>An encoder given a head mask shorter than its stack of layers does not return.\<close>

lemma encoder_layers_short_head_mask:
  "i \<le> n \<Longrightarrow> n < i + length ls \<Longrightarrow> \<exists>e. encoder_layers L h ohs oa ls i n hs am ah aa = Inl e"
proof (induction ls arbitrary: i hs ah aa)
  case Nil
  then show ?case by simp
next
  case (Cons l ls)
  show ?case
  proof (cases "n \<le> i")
    case True
    then show ?thesis by (simp add: Let_def)
  next
    case False
    then have "Suc i \<le> n" and "n < Suc i + length ls" using Cons.prems by simp_all
    from Cons.IH[OF this] False show ?thesis
      by (cases "BertLayer_forward L h l hs am") (auto simp: Let_def)
  qed
qed

lemma BertEncoder_forward_short_head_mask:
  assumes "n < length (layer enc)"
  shows "\<exists>e. BertEncoder_forward L h enc x am n = Inl e"
proof -
  from assms have "n < 0 + length (layer enc)" by simp
  from encoder_layers_short_head_mask[OF _ this]
  obtain e where "encoder_layers L h (enc_output_hidden_states enc) (enc_output_attentions enc)
      (layer enc) 0 n x am [] [] = Inl e"
    by blast
  then show ?thesis by (simp add: BertEncoder_forward_def)
qed

lemma forward_fails_short_el_stack:
  assumes "num_el_hidden_layers (config self) < length (layer (el_encoder self))"
  shows "\<exists>e. LukeE2EModel_forward L h self dropout inp = Inl e"
proof -
  have enc: "\<And>x am. \<exists>e. BertEncoder_forward L h (el_encoder self) x am (num_el_hidden_layers (config self)) = Inl e"
    by (rule BertEncoder_forward_short_head_mask[OF assms])
  have "\<exists>e. raw_entity_selector_scores L h self dropout inp = Inl e"
    unfolding raw_entity_selector_scores_def Let_def
    apply (cases "compute_extended_attention_mask (word_attention_mask inp) (entity_attention_mask inp)"; simp)
    apply (cases "BertEmbeddings_forward L h (embeddings self) (word_ids inp) (word_segment_ids inp)"; simp)
    apply (cases "mask_entity_embedding_output L h self dropout inp"; simp)
    subgoal for ext we me
      apply (cases "cat_hidden we me"; simp)
      subgoal for el
        using enc[of el ext] by auto
      done
    done
  then show ?thesis
    by (auto simp: LukeE2EModel_forward_def Let_def)
qed

text \<open>
  Claim C3, at a configuration with three main layers and one entity-linking layer. The
  constructor passes \<^verbatim>\<open>config\<close>, not \<^verbatim>\<open>el_config\<close>, to the second
  \<^verbatim>\<open>BertEncoder\<close>: the entity-linking stack has the three layers of the main stack, not
  the one layer asked for, and the forward pass, which gives it a head mask of length one,
  ends in an error on every input.
\<close>

theorem el_encoder_layer_count_example:
  "length (layer (el_encoder (fst (LukeE2EModel_init ex_config ex_rnd ex_empty_heap)))) = 3
   \<and> num_el_hidden_layers ex_config = 1
   \<and> (\<exists>e. LukeE2EModel_forward L h (fst (LukeE2EModel_init ex_config ex_rnd ex_empty_heap)) dropout inp = Inl e)"
proof -
  have n: "num_hidden_layers ex_config = 3" and m: "num_el_hidden_layers ex_config = 1"
    by (simp_all add: ex_config_def)
  have "\<exists>e. LukeE2EModel_forward L h (fst (LukeE2EModel_init ex_config ex_rnd ex_empty_heap)) dropout inp = Inl e"
    by (rule forward_fails_short_el_stack) (simp add: el_encoder_layers init_config n m)
  then show ?thesis
    by (simp add: el_encoder_layers n m)
qed

section \<open>The padding row and init_weights\<close>

text \<open>
  Claim C5, at a model of four entities and hidden size 2, with every draw equal to 1 and
  \<^verbatim>\<open>initializer_range\<close> 0.02. The constructor leaves the row of entity id 0 at zero;
  \<^verbatim>\<open>init_weights\<close>, applied to the entity-identity embedding, overwrites every row of
  the weight, the row of id 0 included, and the lookup of id 0 then returns a vector that
  is not zero.
\<close>

theorem padding_row_after_init_weights:
  "Embedding_forward (snd (LukeE2EModel_init ex_config ex_rnd ex_empty_heap))
      (ee_entity_embeddings (entity_embeddings (fst (LukeE2EModel_init ex_config ex_rnd ex_empty_heap)))) 0
     = Inr [0, 0]
   \<and> Embedding_forward
      (init_weights ex_config ex_rnd
         (Embedding_module (ee_entity_embeddings (entity_embeddings (fst (LukeE2EModel_init ex_config ex_rnd ex_empty_heap)))))
         (snd (LukeE2EModel_init ex_config ex_rnd ex_empty_heap)))
      (ee_entity_embeddings (entity_embeddings (fst (LukeE2EModel_init ex_config ex_rnd ex_empty_heap)))) 0
     = Inr [1 / 50, 1 / 50]"
  by (simp add: LukeE2EModel_init_def EntitySelector_init_def EntityEmbeddings_init_def
      Embedding_init_def BertEncoder_init_def new_module_def alloc_def Let_def split_def
      ex_config_def ex_rnd_def ex_empty_heap_def numeral_3_eq_3 Embedding_forward_def
      init_weights_def normal_fill_def zero_fill_def fill_with_def upt_0_2)

section \<open>The forward pass on the concrete model\<close>

lemmas init_defs = LukeE2EModel_init_def EntitySelector_init_def EntityEmbeddings_init_def
  Embedding_init_def BertEncoder_init_def new_module_def alloc_def Let_def split_def
  ex_config1_def ex_config_def ex_rnd_def ex_empty_heap_def

lemma ex_model_eq:
  "ex_model =
     \<lparr>config = ex_config1,
      encoder = \<lparr>enc_output_attentions = False, enc_output_hidden_states = False, layer = [0]\<rparr>,
      pooler = 1, embeddings = 2,
      entity_embeddings =
        \<lparr>ee_entity_embeddings = \<lparr>num_embeddings = 4, embedding_dim = 2, padding_idx = Some 0, weight = 3, dtype = Float32\<rparr>,
         ee_position_embeddings = \<lparr>num_embeddings = 8, embedding_dim = 2, padding_idx = None, weight = 4, dtype = Float32\<rparr>,
         ee_token_type_embeddings = \<lparr>num_embeddings = 2, embedding_dim = 2, padding_idx = None, weight = 5, dtype = Float32\<rparr>,
         ee_LayerNorm = 6\<rparr>,
      mask_entity_embeddings =
        \<lparr>ee_entity_embeddings = \<lparr>num_embeddings = 2, embedding_dim = 2, padding_idx = Some 0, weight = 7, dtype = Float32\<rparr>,
         ee_position_embeddings = \<lparr>num_embeddings = 8, embedding_dim = 2, padding_idx = None, weight = 8, dtype = Float32\<rparr>,
         ee_token_type_embeddings = \<lparr>num_embeddings = 2, embedding_dim = 2, padding_idx = None, weight = 9, dtype = Float32\<rparr>,
         ee_LayerNorm = 10\<rparr>,
      el_encoder = \<lparr>enc_output_attentions = False, enc_output_hidden_states = False, layer = [11]\<rparr>,
      entity_selector =
        \<lparr>es_transform = 12,
         es_embeddings = \<lparr>num_embeddings = 4, embedding_dim = 2, padding_idx = Some 0, weight = 3, dtype = Float32\<rparr>,
         es_bias = \<lparr>num_embeddings = 4, embedding_dim = 1, padding_idx = Some 0, weight = 14, dtype = Float32\<rparr>\<rparr>\<rparr>"
  by (simp add: ex_model_def init_defs)

lemma ex_model_heap_cells:
  "cells ex_model_heap 3 = (\<lambda>i j. if i = 0 then 0 else 1)"
  "cells ex_model_heap 4 = (\<lambda>i j. 1)"
  "cells ex_model_heap 5 = (\<lambda>i j. 1)"
  "cells ex_model_heap 7 = (\<lambda>i j. if i = 0 then 0 else 1)"
  "cells ex_model_heap 8 = (\<lambda>i j. 1)"
  "cells ex_model_heap 9 = (\<lambda>i j. 1)"
  "cells ex_model_heap 14 = (\<lambda>i j. if i = 0 then 0 else 1)"
  by (simp_all add: ex_model_heap_def init_defs)

lemmas fwd_defs = compute_extended_attention_mask_def cat_dim1_def cat_hidden_def
  hidden_sizes_def EntityEmbeddings_forward_def identity_component_def
  position_component_def position_pool_def Embedding_forward_def position_embedding_mask_def position_divisor_def
  eps_in_def EPS_nonzero
  sum_rows_def add4_def add3_def add2_def add1_def bzipWith_def BertEncoder_forward_def
  EntitySelector_forward_def dot_bias_scores_def mul4_def mul3_def mul2_def mul1_def squeeze_last_def
  padding_penalty_def size1_def upt_0_2 numeral_2_eq_2 Let_def ex_library_def ex_dropout_def ex_inputs_def
  ex_model_eq ex_model_heap_cells

lemma ex_mask_entity:
  "mask_entity_embedding_output ex_library ex_model_heap ex_model ex_dropout ex_inputs
     = Inr [[[2 + 1 / (1 + EPS), 2 + 1 / (1 + EPS)], [1, 1]]]"
  by (simp add: mask_entity_embedding_output_def fwd_defs)

lemma ex_raw:
  "raw_entity_selector_scores ex_library ex_model_heap ex_model ex_dropout ex_inputs
     = Inr ([[[[0, 0, -10000]]]], [[[7, 0]]], [[[1, - 10000], [1, - 10000]]])"
  by (simp add: raw_entity_selector_scores_def ex_mask_entity) (simp add: fwd_defs ex_config1_def ex_config_def)

lemma ex_forward:
  "LukeE2EModel_forward ex_library ex_model_heap ex_model ex_dropout ex_inputs
     = Inr [Tensor3 [[[0, 0]]], Tensor3 [[[0, 0], [0, 0]]], Tensor2 [[0, 0]],
            Tensor3 [[[1 / 2, - 5000], [1 / 2, - 5000]]]]"
  apply (simp add: LukeE2EModel_forward_def ex_raw)
  apply (simp add: scale_scores_def mixed_entity_embedding_output_def denoised_entity_embedding_output_def
      mask_embedding_output_def EntityEmbeddings_forward3_def entity_attention_probs_def softmax_def
      masked_fill_def expand_zipWith_def fwd_defs ex_config1_def ex_config_def)
  done

section \<open>The selector scores that the forward pass returns\<close>

text \<open>
  Claim C8, as the code has it. When the forward pass returns with the selector scores
  asked for, and the temperature is not zero, the fourth element of the tuple is the
  tensor of the scores that \<^verbatim>\<open>EntitySelector\<close> returned, each divided by
  \<^verbatim>\<open>entity_selector_softmax_temp\<close>: the logits after the temperature scaling and before
  the soft-max.
\<close>

theorem returned_selector_scores_are_scaled:
  assumes "LukeE2EModel_forward L h self dropout inp = Inr out"
    and "output_entity_selector_scores inp"
    and "entity_selector_softmax_temp (config self) \<noteq> 0"
  shows "\<exists>ext we raw hs.
           raw_entity_selector_scores L h self dropout inp = Inr (ext, we, raw)
         \<and> EntitySelector_forward L h (entity_selector self) hs (entity_candidate_ids inp) = Inr raw
         \<and> out ! 3 = Tensor3 (scale_scores (entity_selector_softmax_temp (config self)) raw)"
proof -
  from assms(1) obtain ext we raw where
    raw: "raw_entity_selector_scores L h self dropout inp = Inr (ext, we, raw)"
    by (auto simp: LukeE2EModel_forward_def Let_def ebind_eq_Inr)
  from raw obtain hs where
    sel: "EntitySelector_forward L h (entity_selector self) hs (entity_candidate_ids inp) = Inr raw"
    by (auto simp: raw_entity_selector_scores_def Let_def ebind_eq_Inr)
  from assms(1,2) raw have
    "out ! 3 = Tensor3 (scale_scores (entity_selector_softmax_temp (config self)) raw)"
    by (auto simp: LukeE2EModel_forward_def Let_def ebind_eq_Inr numeral_3_eq_3)
  with raw sel show ?thesis by blast
qed

theorem returned_selector_scores_are_scaled_witness:
  "\<exists>hs. EntitySelector_forward ex_library ex_model_heap (entity_selector ex_model) hs
          (entity_candidate_ids ex_inputs) = Inr [[[1, - 10000], [1, - 10000]]]
      \<and> [Tensor3 [[[0, 0]]], Tensor3 [[[0, 0], [0, 0]]], Tensor2 [[0, 0]],
            Tensor3 [[[1 / 2, - 5000], [1 / 2, - 5000]]]] ! 3
        = Tensor3 (scale_scores 2 [[[1, - 10000], [1, - 10000]]])"
proof -
  have temp: "entity_selector_softmax_temp (config ex_model) = 2"
    by (simp add: ex_model_eq ex_config1_def ex_config_def)
  have flag: "output_entity_selector_scores ex_inputs"
    by (simp add: ex_inputs_def)
  from returned_selector_scores_are_scaled[OF ex_forward flag] temp
  obtain ext we raw hs where
    "raw_entity_selector_scores ex_library ex_model_heap ex_model ex_dropout ex_inputs = Inr (ext, we, raw)"
    and "EntitySelector_forward ex_library ex_model_heap (entity_selector ex_model) hs
          (entity_candidate_ids ex_inputs) = Inr raw"
    and "[Tensor3 [[[0, 0]]], Tensor3 [[[0, 0], [0, 0]]], Tensor2 [[0, 0]],
            Tensor3 [[[1 / 2, - 5000], [1 / 2, - 5000]]]] ! 3 = Tensor3 (scale_scores 2 raw)"
    by auto
  then show ?thesis
    unfolding ex_raw by blast
qed

text \<open>
  On the concrete model the temperature is 2: \<^verbatim>\<open>EntitySelector\<close> returns the scores 1
  and -10000 for the candidates of each slot, and the forward pass returns 1/2 and -5000.
\<close>

theorem returned_selector_scores_not_raw:
  "raw_entity_selector_scores ex_library ex_model_heap ex_model ex_dropout ex_inputs
     = Inr ([[[[0, 0, -10000]]]], [[[7, 0]]], [[[1, - 10000], [1, - 10000]]])
   \<and> LukeE2EModel_forward ex_library ex_model_heap ex_model ex_dropout ex_inputs
     = Inr [Tensor3 [[[0, 0]]], Tensor3 [[[0, 0], [0, 0]]], Tensor2 [[0, 0]],
            Tensor3 [[[1 / 2, - 5000], [1 / 2, - 5000]]]]
   \<and> [Tensor3 [[[0, 0]]], Tensor3 [[[0, 0], [0, 0]]], Tensor2 [[0, 0]],
            Tensor3 [[[1 / 2, - 5000], [1 / 2, - 5000]]]] ! 3 \<noteq> Tensor3 [[[1, - 10000], [1, - 10000]]]"
  by (simp add: ex_raw ex_forward)

section \<open>The stage-1 entity embeddings\<close>

lemma init_mask_entity_embeddings:
  "ee_entity_embeddings (mask_entity_embeddings (fst (LukeE2EModel_init cfg rnd h)))
     = \<lparr>num_embeddings = 2, embedding_dim = hidden_size cfg, padding_idx = Some 0,
        weight = weight (ee_entity_embeddings (mask_entity_embeddings (fst (LukeE2EModel_init cfg rnd h)))),
        dtype = Float32\<rparr>"
  "embedding_dim (ee_position_embeddings (mask_entity_embeddings (fst (LukeE2EModel_init cfg rnd h))))
     = hidden_size cfg"
  "embedding_dim (ee_token_type_embeddings (mask_entity_embeddings (fst (LukeE2EModel_init cfg rnd h))))
     = hidden_size cfg"
  by (simp_all add: LukeE2EModel_init_def EntitySelector_init_def EntityEmbeddings_init_def
      Embedding_init_def Let_def split_def)

text \<open>
  Claim C9. In a model built by the constructor the masked-entity table has two rows, and
  the stage-1 entity embeddings are computed with the entity attention mask in the place
  of the entity ids. Where the mask holds only 0 and 1 and has the shape of the position
  and segment ids, the stage-1 embedding of every slot is layer norm and dropout of the
  sum of a row of that table, the position term and the segment term: row 1 at a slot
  whose mask value is 1, row 0 at a slot whose mask value is 0.
\<close>

theorem stage1_ids_are_attention_mask:
  assumes "self = fst (LukeE2EModel_init cfg rnd h0)"
    and "list_all (list_all (\<lambda>a. a = 0 \<or> a = 1)) (entity_attention_mask inp)"
    and "position_component h (mask_entity_embeddings self) (entity_position_ids inp) = Inr P"
    and "mapM (mapM (Embedding_forward h (ee_token_type_embeddings (mask_entity_embeddings self))))
           (entity_segment_ids inp) = Inr Tk"
    and "list_all2 (\<lambda>ms ps. length ms = length ps) (entity_attention_mask inp) (entity_position_ids inp)"
    and "list_all2 (\<lambda>ms ss. length ms = length ss) (entity_attention_mask inp) (entity_segment_ids inp)"
  shows "num_embeddings (ee_entity_embeddings (mask_entity_embeddings self)) = 2
       \<and> mask_entity_embedding_output L h self dropout inp
           = Inr (imap (\<lambda>b. imap (\<lambda>e v. dropout 0 [b, e]
                        (BertLayerNorm_forward L h (ee_LayerNorm (mask_entity_embeddings self)) v)))
                   (map2 (map2 (map2 (+)))
                      (map2 (map2 (map2 (+)))
                         (map (map (\<lambda>a. map (cells h (weight (ee_entity_embeddings (mask_entity_embeddings self)))
                                                (if a = 1 then 1 else 0)) [0..<hidden_size cfg]))
                            (entity_attention_mask inp))
                         P)
                      Tk))"
proof (intro conjI)
  let ?ee = "mask_entity_embeddings self"
  let ?t = "ee_entity_embeddings ?ee"
  let ?mask = "entity_attention_mask inp"
  let ?I = "map (map (\<lambda>a. map (cells h (weight ?t) (if a = 1 then 1 else 0)) [0..<hidden_size cfg])) ?mask"
  have t: "num_embeddings ?t = 2" "embedding_dim ?t = hidden_size cfg"
    unfolding assms(1) by (subst init_mask_entity_embeddings(1), simp)+
  have dp: "embedding_dim (ee_position_embeddings ?ee) = hidden_size cfg"
    and dt: "embedding_dim (ee_token_type_embeddings ?ee) = hidden_size cfg"
    unfolding assms(1) by (simp_all add: init_mask_entity_embeddings)
  show "num_embeddings ?t = 2" by (rule t)
  have one: "Embedding_forward h ?t a
      = Inr (map (cells h (weight ?t) (if a = 1 then 1 else 0)) [0..<hidden_size cfg])"
    if "a = 0 \<or> a = 1" for a
    using that by (auto simp: Embedding_forward_def t)
  have "list_all (\<lambda>row. mapM (Embedding_forward h ?t) row
          = Inr (map (\<lambda>a. map (cells h (weight ?t) (if a = 1 then 1 else 0)) [0..<hidden_size cfg]) row))
        ?mask"
    using assms(2)
    by (auto simp: list_all_iff one intro!: mapM_Inr_map)
  then have I: "identity_component h ?ee ?mask = Inr ?I"
    unfolding identity_component_def by (rule mapM_Inr_map)
  note Psh = mapM2_shape[OF assms(3)[unfolded position_component_def]]
  note Tsh = mapM2_shape[OF assms(4)]
  have lp: "length (entity_position_ids inp) = length ?mask"
    "\<And>b. b < length ?mask \<Longrightarrow> length (entity_position_ids inp ! b) = length (?mask ! b)"
    using assms(5) by (auto simp: list_all2_conv_all_nth)
  have ls: "length (entity_segment_ids inp) = length ?mask"
    "\<And>b. b < length ?mask \<Longrightarrow> length (entity_segment_ids inp ! b) = length (?mask ! b)"
    using assms(6) by (auto simp: list_all2_conv_all_nth)
  have IP: "list_all2 (list_all2 (\<lambda>x y. length x = length y)) ?I P"
    unfolding list_all2_conv_all_nth
  proof (intro conjI allI impI)
    show "length ?I = length P" using Psh(1) lp(1) by simp
    fix b assume b: "b < length ?I"
    then show "length (?I ! b) = length (P ! b)" using Psh(2)[of b] lp by simp
    fix e assume e: "e < length (?I ! b)"
    with b have "e < length (entity_position_ids inp ! b)" "b < length (entity_position_ids inp)"
      using lp by simp_all
    from Psh(3)[OF this(2,1)] have "length (P ! b ! e) = hidden_size cfg"
      by (auto dest: length_position_pool simp: dp)
    with b e show "length (?I ! b ! e) = length (P ! b ! e)" by simp
  qed
  have IT: "list_all2 (list_all2 (\<lambda>x y. length x = length y)) ?I Tk"
    unfolding list_all2_conv_all_nth
  proof (intro conjI allI impI)
    show "length ?I = length Tk" using Tsh(1) ls(1) by simp
    fix b assume b: "b < length ?I"
    then show "length (?I ! b) = length (Tk ! b)" using Tsh(2)[of b] ls by simp
    fix e assume e: "e < length (?I ! b)"
    with b have "e < length (entity_segment_ids inp ! b)" "b < length (entity_segment_ids inp)"
      using ls by simp_all
    from Tsh(3)[OF this(2,1)] have "length (Tk ! b ! e) = hidden_size cfg"
      by (auto dest: length_Embedding_forward simp: dt)
    with b e show "length (?I ! b ! e) = length (Tk ! b ! e)" by simp
  qed
  show "mask_entity_embedding_output L h self dropout inp
           = Inr (imap (\<lambda>b. imap (\<lambda>e v. dropout 0 [b, e]
                        (BertLayerNorm_forward L h (ee_LayerNorm ?ee) v)))
                   (map2 (map2 (map2 (+))) (map2 (map2 (map2 (+))) ?I P) Tk))"
    unfolding mask_entity_embedding_output_def
    by (rule EntityEmbeddings_forward_explicit[OF I assms(3,4) IP IT])
qed

lemma ex_stage1_position:
  "position_component ex_model_heap (mask_entity_embeddings ex_model) (entity_position_ids ex_inputs)
     = Inr [[[1 / (1 + EPS), 1 / (1 + EPS)], [0, 0]]]"
  by (simp add: fwd_defs)

lemma ex_stage1_token:
  "mapM (mapM (Embedding_forward ex_model_heap (ee_token_type_embeddings (mask_entity_embeddings ex_model))))
     (entity_segment_ids ex_inputs) = Inr [[[1, 1], [1, 1]]]"
  by (simp add: fwd_defs)

theorem stage1_ids_are_attention_mask_witness:
  "mask_entity_embedding_output ex_library ex_model_heap ex_model ex_dropout ex_inputs
     = Inr [[[2 + 1 / (1 + EPS), 2 + 1 / (1 + EPS)], [1, 1]]]"
proof -
  have m: "list_all (list_all (\<lambda>a. a = 0 \<or> a = 1)) (entity_attention_mask ex_inputs)"
    and s1: "list_all2 (\<lambda>ms ps. length ms = length ps) (entity_attention_mask ex_inputs)
               (entity_position_ids ex_inputs)"
    and s2: "list_all2 (\<lambda>ms ss. length ms = length ss) (entity_attention_mask ex_inputs)
               (entity_segment_ids ex_inputs)"
    by (simp_all add: ex_inputs_def)
  from stage1_ids_are_attention_mask[OF ex_model_def m ex_stage1_position ex_stage1_token s1 s2,
      where L = ex_library and dropout = ex_dropout]
  show ?thesis
    by (simp add: ex_inputs_def ex_model_eq ex_model_heap_cells ex_config1_def ex_config_def
        ex_library_def ex_dropout_def upt_0_2)
qed

section \<open>The override by the masked-entity labels\<close>

lemma masked_fill_same_shape:
  assumes "list_all2 (\<lambda>xs ms. length xs = length ms) t m"
  shows "masked_fill t m v = Inr (map2 (map2 (\<lambda>x b. if b then map (\<lambda>_. v) x else x)) t m)"
  unfolding masked_fill_def
proof (rule expand_zipWith_Inr)
  show "list_all2 (\<lambda>xs ms. expand_zipWith (\<lambda>x b. Inr (if b then map (\<lambda>_. v) x else x)) xs ms
          = Inr (map2 (\<lambda>x b. if b then map (\<lambda>_. v) x else x) xs ms)) t m"
    using assms
  proof (rule list_all2_mono)
    fix xs :: "vec list" and ms :: "bool list"
    assume "length xs = length ms"
    then have "list_all2 (\<lambda>x b. (Inr (if b then map (\<lambda>_. v) x else x) :: error + vec)
        = Inr (if b then map (\<lambda>_. v) x else x)) xs ms"
      by (simp add: list_all2_conv_all_nth)
    then show "expand_zipWith (\<lambda>x b. Inr (if b then map (\<lambda>_. v) x else x)) xs ms
          = Inr (map2 (\<lambda>x b. if b then map (\<lambda>_. v) x else x) xs ms)"
      by (rule expand_zipWith_Inr)
  qed
qed

lemma override_vector:
  fixes x y :: vec
  assumes "length x = length y"
  shows "map2 (+) (if l \<noteq> -1 then map (\<lambda>_. 0) x else x) (if l = -1 then map (\<lambda>_. 0) y else y)
         = (if l \<noteq> (-1::int) then y else x)"
  using assms by (auto simp: list_eq_iff_nth_eq)

lemma override_sum:
  assumes "slot_shapes_agree X Y labels"
  shows "map2 (map2 (map2 (+)))
           (map2 (map2 (\<lambda>x b. if b then map (\<lambda>_. 0) x else x)) X (map (map (\<lambda>l. l \<noteq> -1)) labels))
           (map2 (map2 (\<lambda>x b. if b then map (\<lambda>_. 0) x else x)) Y (map (map (\<lambda>l. l = -1)) labels))
         = select_by_label X Y labels"
  using assms
  by (auto simp: slot_shapes_agree_def select_by_label_def list_eq_iff_nth_eq list_all2_conv_all_nth
      override_vector)

lemma select_by_label_nth:
  assumes "slot_shapes_agree X Y labels" and "b < length labels" and "m < length (labels ! b)"
  shows "select_by_label X Y labels ! b ! m = (if labels ! b ! m \<noteq> -1 then Y ! b ! m else X ! b ! m)"
  using assms
  by (auto simp: slot_shapes_agree_def select_by_label_def list_all2_conv_all_nth)

text \<open>
  Claim C6. Lines 205 to 210 of the forward pass, given masked-entity labels: when the
  mixed embeddings and the [MASK] embeddings, computed by \<^verbatim>\<open>EntityEmbeddings.forward\<close>
  with entity id 2 at every slot, have the shape of the labels, the embedding of a slot
  whose label is not -1 is the [MASK] embedding of that slot and the embedding of a slot
  whose label is -1 is its mixed embedding, unchanged.
\<close>

theorem masked_labels_override:
  assumes "masked_entity_labels inp = Some labels"
    and "mask_embedding_output L h self dropout inp = Inr masked"
    and "slot_shapes_agree mixed masked labels"
  shows "denoised_entity_embedding_output L h self dropout inp mixed = Inr (select_by_label mixed masked labels)
       \<and> (\<forall>b < length labels. \<forall>m < length (labels ! b).
            select_by_label mixed masked labels ! b ! m
              = (if labels ! b ! m \<noteq> -1 then masked ! b ! m else mixed ! b ! m))
       \<and> mask_embedding_output L h self dropout inp
           = EntityEmbeddings_forward L h (entity_embeddings self) (dropout 2)
               (map (map (\<lambda>_. 2)) (entity_segment_ids inp)) (entity_position_ids inp)
               (Some (entity_segment_ids inp))"
proof (intro conjI allI impI)
  have sh: "list_all2 (\<lambda>xs ls. length xs = length ls) mixed labels"
    "list_all2 (list_all2 (\<lambda>x y. length x = length y)) mixed masked"
    using assms(3) by (simp_all add: slot_shapes_agree_def)
  have m1: "list_all2 (\<lambda>xs ms. length xs = length ms) masked (map (map (\<lambda>l. l = -1)) labels)"
    using sh by (auto simp: list_all2_conv_all_nth)
  have m2: "list_all2 (\<lambda>xs ms. length xs = length ms) mixed (map (map (\<lambda>l. l \<noteq> -1)) labels)"
    using sh by (auto simp: list_all2_conv_all_nth)
  have m3: "list_all2 (list_all2 (\<lambda>x y. length x = length y))
      (map2 (map2 (\<lambda>x b. if b then map (\<lambda>_. 0) x else x)) mixed (map (map (\<lambda>l. l \<noteq> -1)) labels))
      (map2 (map2 (\<lambda>x b. if b then map (\<lambda>_. 0) x else x)) masked (map (map (\<lambda>l. l = -1)) labels))"
    using sh by (auto simp: list_all2_conv_all_nth)
  show "denoised_entity_embedding_output L h self dropout inp mixed = Inr (select_by_label mixed masked labels)"
    by (simp add: denoised_entity_embedding_output_def assms(1,2) masked_fill_same_shape[OF m1]
        masked_fill_same_shape[OF m2] add3_same_shape[OF m3] override_sum[OF assms(3)])
  show "mask_embedding_output L h self dropout inp
           = EntityEmbeddings_forward L h (entity_embeddings self) (dropout 2)
               (map (map (\<lambda>_. 2)) (entity_segment_ids inp)) (entity_position_ids inp)
               (Some (entity_segment_ids inp))"
    by (simp add: mask_embedding_output_def)
next
  fix b m
  assume "b < length labels" and "m < length (labels ! b)"
  then show "select_by_label mixed masked labels ! b ! m
              = (if labels ! b ! m \<noteq> -1 then masked ! b ! m else mixed ! b ! m)"
    by (rule select_by_label_nth[OF assms(3)])
qed

lemma ex_mask_embedding:
  "mask_embedding_output ex_library ex_model_heap ex_model ex_dropout ex_inputs
     = Inr [[[2 + 1 / (1 + EPS), 2 + 1 / (1 + EPS)], [2, 2]]]"
  by (simp add: mask_embedding_output_def fwd_defs)

lemma ex_mixed:
  "\<exists>mixed. mixed_entity_embedding_output ex_library ex_model_heap ex_model ex_dropout ex_inputs
        (scale_scores 2 [[[1, - 10000], [1, - 10000]]]) = Inr mixed
     \<and> slot_shapes_agree mixed [[[2 + 1 / (1 + EPS), 2 + 1 / (1 + EPS)], [2, 2]]] [[- 1, 3]]"
  by (simp add: scale_scores_def mixed_entity_embedding_output_def EntityEmbeddings_forward3_def
      entity_attention_probs_def softmax_def slot_shapes_agree_def fwd_defs ex_config1_def ex_config_def)

theorem masked_labels_override_witness:
  "\<exists>mixed out.
      mixed_entity_embedding_output ex_library ex_model_heap ex_model ex_dropout ex_inputs
        (scale_scores 2 [[[1, - 10000], [1, - 10000]]]) = Inr mixed
    \<and> denoised_entity_embedding_output ex_library ex_model_heap ex_model ex_dropout ex_inputs mixed = Inr out
    \<and> out ! 0 ! 0 = mixed ! 0 ! 0 \<and> out ! 0 ! 1 = [2, 2]"
proof -
  from ex_mixed obtain mixed where
    mx: "mixed_entity_embedding_output ex_library ex_model_heap ex_model ex_dropout ex_inputs
        (scale_scores 2 [[[1, - 10000], [1, - 10000]]]) = Inr mixed"
    and sh: "slot_shapes_agree mixed [[[2 + 1 / (1 + EPS), 2 + 1 / (1 + EPS)], [2, 2]]] [[- 1, 3]]"
    by blast
  have lb: "masked_entity_labels ex_inputs = Some [[-1, 3]]"
    by (simp add: ex_inputs_def)
  from masked_labels_override[OF lb ex_mask_embedding sh]
  have "denoised_entity_embedding_output ex_library ex_model_heap ex_model ex_dropout ex_inputs mixed
          = Inr (select_by_label mixed [[[2 + 1 / (1 + EPS), 2 + 1 / (1 + EPS)], [2, 2]]] [[- 1, 3]])"
    and "select_by_label mixed [[[2 + 1 / (1 + EPS), 2 + 1 / (1 + EPS)], [2, 2]]] [[- 1, 3]] ! 0 ! 0
          = mixed ! 0 ! 0"
    and "select_by_label mixed [[[2 + 1 / (1 + EPS), 2 + 1 / (1 + EPS)], [2, 2]]] [[- 1, 3]] ! 0 ! 1
          = [2, 2]"
    by simp_all
  with mx show ?thesis by blast
qed

section \<open>The penalty on padding candidates\<close>

lemma two_elems_le_sum_list:
  fixes ys :: "real list"
  assumes "\<forall>y \<in> set ys. 0 \<le> y" and "c < length ys" and "j < length ys" and "c \<noteq> j"
  shows "ys ! c + ys ! j \<le> sum_list ys"
proof -
  have "ys ! c + ys ! j = (\<Sum>i \<in> {c, j}. ys ! i)"
    using assms(4) by simp
  also have "\<dots> \<le> (\<Sum>i = 0..<length ys. ys ! i)"
    by (rule sum_mono2) (use assms in auto)
  also have "\<dots> = sum_list ys"
    by (simp add: sum_list_sum_nth)
  finally show ?thesis .
qed

lemma softmax_below_millionth:
  assumes "c < length xs" and "j < length xs" and "xs ! c + ln (10 ^ 6) \<le> xs ! j"
  shows "softmax xs ! c < 1 / 10 ^ 6"
proof -
  let ?S = "sum_list (map exp xs)"
  have lnpos: "0 < ln ((10::real) ^ 6)" by (rule ln_gt_zero) simp
  with assms(3) have ne: "c \<noteq> j" by auto
  have "map exp xs ! c + map exp xs ! j \<le> ?S"
    by (rule two_elems_le_sum_list) (use assms(1,2) ne in auto)
  then have "exp (xs ! c) + exp (xs ! j) \<le> ?S" using assms(1,2) by simp
  moreover have "0 < exp (xs ! c)" by simp
  ultimately have S: "exp (xs ! j) < ?S" by linarith
  have "softmax xs ! c = exp (xs ! c) / ?S"
    using assms(1) by (simp add: softmax_def)
  also have "\<dots> < exp (xs ! c) / exp (xs ! j)"
  proof -
    have "0 < exp (xs ! j)" by simp
    with S have "0 < ?S" by linarith
    then have "0 < ?S * exp (xs ! j)" by simp
    with S show ?thesis by (intro divide_strict_left_mono) simp_all
  qed
  also have "\<dots> = exp (xs ! c - xs ! j)"
    by (simp add: exp_diff)
  also have "\<dots> \<le> exp (- ln (10 ^ 6))"
    using assms(3) by simp
  also have "\<dots> = 1 / 10 ^ 6"
    by (simp add: exp_minus inverse_eq_divide)
  finally show ?thesis .
qed

lemma add_penalty_same_shape:
  assumes "list_all2 (list_all2 (\<lambda>r i. length r = length i)) s ids"
  shows "add3 s (map (map (map padding_penalty)) ids)
         = Inr (map2 (map2 (map2 (\<lambda>x i. x + padding_penalty i))) s ids)"
proof -
  have "list_all2 (list_all2 (\<lambda>x y. length x = length y)) s (map (map (map padding_penalty)) ids)"
    using assms by (auto simp: list_all2_conv_all_nth)
  then have "add3 s (map (map (map padding_penalty)) ids)
      = Inr (map2 (map2 (map2 (+))) s (map (map (map padding_penalty)) ids))"
    by (rule add3_same_shape)
  also have "map2 (map2 (map2 (+))) s (map (map (map padding_penalty)) ids)
      = map2 (map2 (map2 (\<lambda>x i. x + padding_penalty i))) s ids"
    using assms by (auto simp: list_eq_iff_nth_eq list_all2_conv_all_nth)
  finally show ?thesis .
qed

text \<open>
  Claim C2, as the code has it. When the scores of lines 72 to 77 (dot product plus bias)
  have the shape of the candidate ids, \<^verbatim>\<open>EntitySelector.forward\<close> returns them with
  10000 subtracted at every candidate whose id is 0. After division by a temperature
  \<open>T > 0\<close> and the soft-max over the candidates of the slot, the probability of such a
  padding candidate is below one millionth whenever some candidate of the slot has a
  returned score at least the returned score of the padding candidate plus
  \<open>T ln 10\<^sup>6\<close>.
\<close>

theorem padding_candidate_penalty:
  assumes "dot_bias_scores L h self hidden_states ids = Inr s"
    and "list_all2 (list_all2 (\<lambda>r i. length r = length i)) s ids"
  shows "EntitySelector_forward L h self hidden_states ids
           = Inr (map2 (map2 (map2 (\<lambda>x i. x + padding_penalty i))) s ids)
       \<and> (\<forall>T b m c j.
            0 < T \<and> b < length ids \<and> m < length (ids ! b)
            \<and> c < length (ids ! b ! m) \<and> j < length (ids ! b ! m)
            \<and> ids ! b ! m ! c = 0
            \<and> s ! b ! m ! c - 10000 + T * ln (10 ^ 6) \<le> s ! b ! m ! j + padding_penalty (ids ! b ! m ! j)
            \<longrightarrow> map2 (map2 (map2 (\<lambda>x i. x + padding_penalty i))) s ids ! b ! m ! c = s ! b ! m ! c - 10000
              \<and> entity_attention_probs
                   (scale_scores T (map2 (map2 (map2 (\<lambda>x i. x + padding_penalty i))) s ids)) ! b ! m ! c
                 < 1 / 10 ^ 6)"
proof (intro conjI allI impI)
  show "EntitySelector_forward L h self hidden_states ids
           = Inr (map2 (map2 (map2 (\<lambda>x i. x + padding_penalty i))) s ids)"
    by (simp add: EntitySelector_forward_def assms(1) add_penalty_same_shape[OF assms(2)])
next
  fix T :: real and b m c j
  let ?scores = "map2 (map2 (map2 (\<lambda>x i. x + padding_penalty i))) s ids"
  assume a: "0 < T \<and> b < length ids \<and> m < length (ids ! b)
            \<and> c < length (ids ! b ! m) \<and> j < length (ids ! b ! m)
            \<and> ids ! b ! m ! c = 0
            \<and> s ! b ! m ! c - 10000 + T * ln (10 ^ 6) \<le> s ! b ! m ! j + padding_penalty (ids ! b ! m ! j)"
  have len: "length s = length ids" "length (s ! b) = length (ids ! b)"
    "length (s ! b ! m) = length (ids ! b ! m)"
    using assms(2) a by (auto simp: list_all2_conv_all_nth)
  have row: "?scores ! b ! m = map2 (\<lambda>x i. x + padding_penalty i) (s ! b ! m) (ids ! b ! m)"
    using a len by simp
  have sc: "?scores ! b ! m ! c = s ! b ! m ! c - 10000"
    using a len by (simp add: row padding_penalty_def)
  have sj: "?scores ! b ! m ! j = s ! b ! m ! j + padding_penalty (ids ! b ! m ! j)"
    using a len by (simp add: row)
  show "?scores ! b ! m ! c = s ! b ! m ! c - 10000" by (rule sc)
  let ?xs = "map (\<lambda>x. x / T) (?scores ! b ! m)"
  have lx: "length ?xs = length (ids ! b ! m)" using len by (simp add: row)
  have probs: "entity_attention_probs (scale_scores T ?scores) ! b ! m = softmax ?xs"
    using a len by (simp add: entity_attention_probs_def scale_scores_def)
  have "?scores ! b ! m ! c + T * ln (10 ^ 6) \<le> ?scores ! b ! m ! j"
    using a sc sj by simp
  then have "(?scores ! b ! m ! c + T * ln (10 ^ 6)) / T \<le> ?scores ! b ! m ! j / T"
    using a by (simp add: divide_right_mono)
  then have "?scores ! b ! m ! c / T + ln (10 ^ 6) \<le> ?scores ! b ! m ! j / T"
    using a by (simp add: add_divide_distrib)
  then have gap: "?xs ! c + ln (10 ^ 6) \<le> ?xs ! j"
    using a lx by simp
  have "softmax ?xs ! c < 1 / 10 ^ 6"
    by (rule softmax_below_millionth[OF _ _ gap]) (use a lx in simp_all)
  then show "entity_attention_probs (scale_scores T ?scores) ! b ! m ! c < 1 / 10 ^ 6"
    by (simp add: probs)
qed

lemmas sel_defs = EntitySelector_forward_def dot_bias_scores_def Embedding_forward_def
  mul4_def mul3_def mul2_def mul1_def add3_def add2_def add1_def bzipWith_def squeeze_last_def
  padding_penalty_def upt_0_2 ex_library_def

lemma ex_low_dot_bias:
  "dot_bias_scores ex_library ex_low_heap ex_selector [[[1, 0]]] [[[1, 0, 0]]] = Inr [[[- 3, 0, 0]]]"
  by (simp add: sel_defs ex_selector_def ex_low_heap_def)

lemma ln_million: "ln ((10::real) ^ 6) \<le> 54"
proof -
  have e: "ln ((10::real) ^ 6) = real 6 * ln 10" by (rule ln_realpow)
  have "ln (10::real) \<le> 10 - 1" by (rule ln_le_minus_one) simp
  then show ?thesis unfolding e by simp
qed

theorem padding_candidate_penalty_witness:
  "EntitySelector_forward ex_library ex_low_heap ex_selector [[[1, 0]]] [[[1, 0, 0]]]
     = Inr [[[- 3, - 10000, - 10000]]]
   \<and> entity_attention_probs (scale_scores 1 [[[- 3, - 10000, - 10000]]]) ! 0 ! 0 ! 1 < 1 / 10 ^ 6
   \<and> entity_attention_probs (scale_scores 1 [[[- 3, - 10000, - 10000]]]) ! 0 ! 0 ! 2 < 1 / 10 ^ 6"
proof -
  have sh: "list_all2 (list_all2 (\<lambda>r i. length r = length i)) [[[- 3 :: real, 0, 0]]] [[[1::int, 0, 0]]]"
    by simp
  have sc: "map2 (map2 (map2 (\<lambda>x i. x + padding_penalty i))) [[[- 3 :: real, 0, 0]]] [[[1::int, 0, 0]]]
      = [[[- 3, - 10000, - 10000]]]"
    by (simp add: padding_penalty_def)
  from padding_candidate_penalty[OF ex_low_dot_bias sh]
  have fw: "EntitySelector_forward ex_library ex_low_heap ex_selector [[[1, 0]]] [[[1, 0, 0]]]
     = Inr [[[- 3, - 10000, - 10000]]]"
    and pr: "\<And>T b m c j. 0 < T \<and> b < length [[[1::int, 0, 0]]] \<and> m < length ([[[1::int, 0, 0]]] ! b)
            \<and> c < length ([[[1::int, 0, 0]]] ! b ! m) \<and> j < length ([[[1::int, 0, 0]]] ! b ! m)
            \<and> [[[1::int, 0, 0]]] ! b ! m ! c = 0
            \<and> [[[- 3 :: real, 0, 0]]] ! b ! m ! c - 10000 + T * ln (10 ^ 6)
                \<le> [[[- 3 :: real, 0, 0]]] ! b ! m ! j + padding_penalty ([[[1::int, 0, 0]]] ! b ! m ! j)
            \<Longrightarrow> entity_attention_probs (scale_scores T [[[- 3, - 10000, - 10000]]]) ! b ! m ! c < 1 / 10 ^ 6"
    unfolding sc by blast+
  have "entity_attention_probs (scale_scores 1 [[[- 3, - 10000, - 10000]]]) ! 0 ! 0 ! 1 < 1 / 10 ^ 6"
    by (rule pr[of 1 0 0 1 0]) (use ln_million in \<open>simp add: padding_penalty_def\<close>)
  moreover have "entity_attention_probs (scale_scores 1 [[[- 3, - 10000, - 10000]]]) ! 0 ! 0 ! 2 < 1 / 10 ^ 6"
    by (rule pr[of 1 0 0 2 0]) (use ln_million in \<open>simp add: padding_penalty_def\<close>)
  ultimately show ?thesis using fw by simp
qed

lemma half_le: "(1::real) \<le> x \<Longrightarrow> 1 / 2 \<le> x / (x + 1)"
  by (simp add: field_simps)

text \<open>
  Without such a candidate the bound fails. With the embedding row \<open>[20000, 0]\<close> at id 0
  and the hidden vector \<open>[1, 0]\<close>, the padding candidate scores 10000 against 0 for the
  real candidate and takes more than half of the probability; and a slot whose candidates
  are all padding gives each of its two candidates the probability one half.
\<close>

theorem padding_candidate_probability_not_small:
  "EntitySelector_forward ex_library ex_pad_heap ex_selector [[[1, 0]]] [[[0, 1]]] = Inr [[[10000, 0]]]
   \<and> \<not> entity_attention_probs (scale_scores 1 [[[10000, 0]]]) ! 0 ! 0 ! 0 < 1 / 10 ^ 6
   \<and> EntitySelector_forward ex_library ex_empty_heap ex_selector [[[1, 0]]] [[[0, 0]]]
       = Inr [[[- 10000, - 10000]]]
   \<and> entity_attention_probs (scale_scores 1 [[[- 10000, - 10000]]]) = [[[1 / 2, 1 / 2]]]"
proof (intro conjI)
  show "EntitySelector_forward ex_library ex_pad_heap ex_selector [[[1, 0]]] [[[0, 1]]] = Inr [[[10000, 0]]]"
    by (simp add: sel_defs ex_selector_def ex_pad_heap_def)
  have val: "entity_attention_probs (scale_scores 1 [[[10000, 0]]]) ! 0 ! 0 ! 0
      = exp (10000::real) / (exp 10000 + 1)"
    by (simp add: entity_attention_probs_def scale_scores_def softmax_def)
  have "1 / 2 \<le> exp (10000::real) / (exp 10000 + 1)"
    by (rule half_le) simp
  moreover have "(1::real) / 10 ^ 6 < 1 / 2" by simp
  ultimately have "\<not> exp (10000::real) / (exp 10000 + 1) < 1 / 10 ^ 6"
    by linarith
  then show "\<not> entity_attention_probs (scale_scores 1 [[[10000, 0]]]) ! 0 ! 0 ! 0 < 1 / 10 ^ 6"
    unfolding val .
  show "EntitySelector_forward ex_library ex_empty_heap ex_selector [[[1, 0]]] [[[0, 0]]]
       = Inr [[[- 10000, - 10000]]]"
    by (simp add: sel_defs ex_selector_def ex_empty_heap_def)
  show "entity_attention_probs (scale_scores 1 [[[- 10000, - 10000]]]) = [[[1 / 2, 1 / 2]]]"
    by (simp add: entity_attention_probs_def scale_scores_def softmax_def)
qed

section \<open>Loading a checkpoint\<close>

lemma load_param_prefix:
  "load_param sd pfx np st = load_param sd [] (pfx @ fst np, snd np) st"
  by (simp add: load_param_def)

lemma fold_load_param_prefix:
  "fold (load_param sd pfx) ps st = fold (load_param sd []) (map (\<lambda>np. (pfx @ fst np, snd np)) ps) st"
  by (induction ps arbitrary: st) (simp_all add: load_param_prefix[of sd pfx])

lemma load_param_unexpected:
  "load_param sd pfx np (st\<lparr>unexpected_keys := u\<rparr>) = (load_param sd pfx np st)\<lparr>unexpected_keys := u\<rparr>"
  by (simp add: load_param_def Let_def split: option.splits)

lemma fold_load_param_unexpected:
  "fold (load_param sd pfx) ps (st\<lparr>unexpected_keys := u\<rparr>) = (fold (load_param sd pfx) ps st)\<lparr>unexpected_keys := u\<rparr>"
  by (induction ps arbitrary: st) (simp_all add: load_param_unexpected)

lemma load_param_keeps_unexpected:
  "unexpected_keys (load_param sd pfx np st) = unexpected_keys st"
  by (simp add: load_param_def Let_def split: option.splits)

lemma fold_load_param_keeps_unexpected:
  "unexpected_keys (fold (load_param sd pfx) ps st) = unexpected_keys st"
  by (induction ps arbitrary: st) (simp_all add: load_param_keeps_unexpected)

lemma load_as_fold:
  "\<exists>u. load sd m pfx st = (fold (load_param sd []) (named_tensors m pfx) st)\<lparr>unexpected_keys := u\<rparr>
       \<and> set u \<subseteq> set (unexpected_keys st) \<union> set (map fst sd)"
  "\<exists>u. load_children sd cs pfx st = (fold (load_param sd []) (named_tensors_children cs pfx) st)\<lparr>unexpected_keys := u\<rparr>
       \<and> set u \<subseteq> set (unexpected_keys st) \<union> set (map fst sd)"
proof (induction sd m pfx st and sd cs pfx st rule: load_load_children.induct)
  case (1 sd ps cs pfx st)
  let ?st1 = "load_from_state_dict sd pfx (Module ps cs) st"
  let ?F = "fold (load_param sd [])"
  let ?own = "map (\<lambda>np. (pfx @ fst np, snd np)) ps"
  have st1: "?st1 = (?F ?own st)\<lparr>unexpected_keys := unexpected_keys ?st1\<rparr>"
    by (simp add: load_from_state_dict_def Let_def fold_load_param_prefix[of sd pfx])
  have u1: "set (unexpected_keys ?st1) \<subseteq> set (unexpected_keys st) \<union> set (map fst sd)"
    by (auto simp: load_from_state_dict_def Let_def fold_load_param_keeps_unexpected)
  from 1 obtain u where
    u: "load_children sd cs pfx ?st1 = (?F (named_tensors_children cs pfx) ?st1)\<lparr>unexpected_keys := u\<rparr>"
    and su: "set u \<subseteq> set (unexpected_keys ?st1) \<union> set (map fst sd)"
    by blast
  have "?F (named_tensors_children cs pfx) ?st1
      = (?F (named_tensors_children cs pfx) (?F ?own st))\<lparr>unexpected_keys := unexpected_keys ?st1\<rparr>"
    by (subst st1) (simp add: fold_load_param_unexpected)
  then have "load sd (Module ps cs) pfx st
      = (?F (named_tensors (Module ps cs) pfx) st)\<lparr>unexpected_keys := u\<rparr>"
    by (simp add: u)
  moreover have "set u \<subseteq> set (unexpected_keys st) \<union> set (map fst sd)"
    using su u1 by blast
  ultimately show ?case by blast
next
  case (2 sd pfx st)
  have "load_children sd [] pfx st
      = (fold (load_param sd []) (named_tensors_children [] pfx) st)\<lparr>unexpected_keys := unexpected_keys st\<rparr>"
    by simp
  moreover have "set (unexpected_keys st) \<subseteq> set (unexpected_keys st) \<union> set (map fst sd)"
    by blast
  ultimately show ?case by blast
next
  case (3 sd name child rest pfx st)
  let ?F = "fold (load_param sd [])"
  let ?st1 = "case child of None \<Rightarrow> st | Some m \<Rightarrow> load sd m (pfx @ name @ ''.'') st"
  let ?own = "case child of None \<Rightarrow> [] | Some m \<Rightarrow> named_tensors m (pfx @ name @ ''.'')"
  have "\<exists>u1. ?st1 = (?F ?own st)\<lparr>unexpected_keys := u1\<rparr>
          \<and> set u1 \<subseteq> set (unexpected_keys st) \<union> set (map fst sd)"
  proof (cases child)
    case None
    have "?st1 = (?F ?own st)\<lparr>unexpected_keys := unexpected_keys st\<rparr>"
      using None by simp
    moreover have "set (unexpected_keys st) \<subseteq> set (unexpected_keys st) \<union> set (map fst sd)"
      by blast
    ultimately show ?thesis by blast
  next
    case (Some m)
    with 3(1)[OF Some] show ?thesis by simp
  qed
  then obtain u1 where
    st1: "?st1 = (?F ?own st)\<lparr>unexpected_keys := u1\<rparr>"
    and su1: "set u1 \<subseteq> set (unexpected_keys st) \<union> set (map fst sd)"
    by blast
  from 3(2) obtain u where
    u: "load_children sd rest pfx ?st1 = (?F (named_tensors_children rest pfx) ?st1)\<lparr>unexpected_keys := u\<rparr>"
    and su: "set u \<subseteq> set (unexpected_keys ?st1) \<union> set (map fst sd)"
    by blast
  have "?F (named_tensors_children rest pfx) ?st1
      = (?F (named_tensors_children rest pfx) (?F ?own st))\<lparr>unexpected_keys := u1\<rparr>"
    by (subst st1) (simp add: fold_load_param_unexpected)
  then have "load_children sd ((name, child) # rest) pfx st
      = (?F (named_tensors_children ((name, child) # rest) pfx) st)\<lparr>unexpected_keys := u\<rparr>"
    by (simp add: u)
  moreover have "unexpected_keys ?st1 = u1" by (subst st1) simp
  then have "set u \<subseteq> set (unexpected_keys st) \<union> set (map fst sd)"
    using su su1 by auto
  ultimately show ?case by blast
qed


lemma fold_error_msgs:
  "error_msgs (fold (load_param sd []) kps st) = error_msgs st @ size_mismatches sd kps"
  by (induction kps arbitrary: st)
     (auto simp: size_mismatches_def load_param_def Let_def split: option.splits)

lemma fold_missing_keys:
  "missing_keys (fold (load_param sd []) kps st)
     = missing_keys st @ filter (\<lambda>k. map_of sd k = None) (map fst kps)"
  by (induction kps arbitrary: st)
     (auto simp: load_param_def Let_def split: option.splits)

lemma fold_heap_untouched:
  "a \<notin> loaded_addrs sd kps \<Longrightarrow> cells (ls_heap (fold (load_param sd []) kps st)) a = cells (ls_heap st) a"
  by (induction kps arbitrary: st)
     (auto simp: loaded_addrs_def loadable_def load_param_def Let_def split: option.splits if_splits)

lemma loaded_addrs_subset:
  "loaded_addrs sd kps \<subseteq> set (map (\<lambda>kp. p_addr (snd kp)) kps)"
  by (auto simp: loaded_addrs_def)

lemma fold_heap_loaded:
  assumes "distinct (map (\<lambda>kp. p_addr (snd kp)) kps)" and "kp \<in> set kps"
    and "map_of sd (fst kp) = Some t" and "t_shape t = p_shape (snd kp)"
  shows "cells (ls_heap (fold (load_param sd []) kps st)) (p_addr (snd kp)) = t_data t"
  using assms
proof (induction kps arbitrary: st)
  case Nil
  then show ?case by simp
next
  case (Cons x kps)
  show ?case
  proof (cases "kp = x")
    case True
    have "p_addr (snd x) \<notin> loaded_addrs sd kps"
      using Cons.prems(1) loaded_addrs_subset[of sd kps] by auto
    then have "cells (ls_heap (fold (load_param sd []) kps (load_param sd [] x st))) (p_addr (snd x))
        = cells (ls_heap (load_param sd [] x st)) (p_addr (snd x))"
      by (rule fold_heap_untouched)
    also have "\<dots> = t_data t"
      using Cons.prems(3,4) True by (simp add: load_param_def Let_def)
    finally show ?thesis using True by simp
  next
    case False
    with Cons show ?thesis by simp
  qed
qed

lemma loaded_state_as_fold:
  "\<exists>u. loaded_state m sd h
       = (fold (load_param (rename_keys sd) []) (named_tensors m [])
            \<lparr>ls_heap = h, missing_keys = [], unexpected_keys = [], error_msgs = []\<rparr>)\<lparr>unexpected_keys := u\<rparr>
     \<and> set u \<subseteq> set (map fst (rename_keys sd))"
  using load_as_fold(1)[of "rename_keys sd" m "[]"
      "\<lparr>ls_heap = h, missing_keys = [], unexpected_keys = [], error_msgs = []\<rparr>"]
  by (simp add: loaded_state_def)

text \<open>
  Claim C7, as the code has it. \<^verbatim>\<open>load_bert_weights\<close> raises \<^verbatim>\<open>RuntimeError\<close>
  exactly when some tensor of the model has a checkpoint entry (after the renaming of the
  keys) of another shape, and the error carries one size-mismatch message per such tensor,
  naming its path. Missing keys are collected and never logged; the only log record is
  one at level INFO listing the sorted unexpected keys, written when there are any, and
  no missing key is among them. The tensors whose address no loadable checkpoint entry
  targets keep the value they had, and, when the tensors of the model have distinct
  addresses, each tensor with an entry of its shape takes the value of the entry.
\<close>

theorem load_bert_weights_outcome:
  "res_raised (load_bert_weights cls m sd h)
     = (if size_mismatches (rename_keys sd) (named_tensors m []) = [] then None
        else Some (RuntimeError cls (size_mismatches (rename_keys sd) (named_tensors m []))))
   \<and> (\<forall>kp t. kp \<in> set (named_tensors m []) \<and> map_of (rename_keys sd) (fst kp) = Some t
          \<and> t_shape t \<noteq> p_shape (snd kp)
        \<longrightarrow> SizeMismatch (fst kp) (t_shape t) (p_shape (snd kp))
              \<in> set (size_mismatches (rename_keys sd) (named_tensors m [])))
   \<and> missing_keys (loaded_state m sd h)
       = filter (\<lambda>k. map_of (rename_keys sd) k = None) (map fst (named_tensors m []))
   \<and> res_log (load_bert_weights cls m sd h)
       = (if unexpected_keys (loaded_state m sd h) = [] then []
          else [\<lparr>level = INFO, log_class = cls, log_keys = sort (unexpected_keys (loaded_state m sd h))\<rparr>])
   \<and> set (unexpected_keys (loaded_state m sd h)) \<inter> set (missing_keys (loaded_state m sd h)) = {}
   \<and> (\<forall>a. a \<notin> loaded_addrs (rename_keys sd) (named_tensors m [])
        \<longrightarrow> cells (res_heap (load_bert_weights cls m sd h)) a = cells h a)
   \<and> (distinct (map (\<lambda>kp. p_addr (snd kp)) (named_tensors m []))
        \<longrightarrow> (\<forall>kp t. kp \<in> set (named_tensors m []) \<and> map_of (rename_keys sd) (fst kp) = Some t
                 \<and> t_shape t = p_shape (snd kp)
               \<longrightarrow> cells (res_heap (load_bert_weights cls m sd h)) (p_addr (snd kp)) = t_data t))"
proof -
  let ?sd = "rename_keys sd" and ?kps = "named_tensors m []"
  let ?st0 = "\<lparr>ls_heap = h, missing_keys = [], unexpected_keys = [], error_msgs = []\<rparr>"
  from loaded_state_as_fold[of m sd h] obtain u where
    st: "loaded_state m sd h = (fold (load_param ?sd []) ?kps ?st0)\<lparr>unexpected_keys := u\<rparr>"
    and su: "set u \<subseteq> set (map fst ?sd)"
    by blast
  have err: "error_msgs (loaded_state m sd h) = size_mismatches ?sd ?kps"
    by (simp add: st fold_error_msgs)
  have mis: "missing_keys (loaded_state m sd h) = filter (\<lambda>k. map_of ?sd k = None) (map fst ?kps)"
    by (simp add: st fold_missing_keys)
  have unx: "unexpected_keys (loaded_state m sd h) = u"
    by (simp add: st)
  have hp: "ls_heap (loaded_state m sd h) = ls_heap (fold (load_param ?sd []) ?kps ?st0)"
    by (simp add: st)
  have c1: "res_raised (load_bert_weights cls m sd h)
     = (if size_mismatches ?sd ?kps = [] then None else Some (RuntimeError cls (size_mismatches ?sd ?kps)))"
    by (simp add: load_bert_weights_def Let_def err)
  have c2: "\<forall>kp t. kp \<in> set ?kps \<and> map_of ?sd (fst kp) = Some t \<and> t_shape t \<noteq> p_shape (snd kp)
        \<longrightarrow> SizeMismatch (fst kp) (t_shape t) (p_shape (snd kp)) \<in> set (size_mismatches ?sd ?kps)"
    by (force simp: size_mismatches_def)
  have c4: "res_log (load_bert_weights cls m sd h)
       = (if unexpected_keys (loaded_state m sd h) = [] then []
          else [\<lparr>level = INFO, log_class = cls, log_keys = sort (unexpected_keys (loaded_state m sd h))\<rparr>])"
    by (simp add: load_bert_weights_def Let_def)
  have c5: "set (unexpected_keys (loaded_state m sd h)) \<inter> set (missing_keys (loaded_state m sd h)) = {}"
    using su by (auto simp: unx mis map_of_eq_None_iff)
  have c6: "\<forall>a. a \<notin> loaded_addrs ?sd ?kps \<longrightarrow> cells (res_heap (load_bert_weights cls m sd h)) a = cells h a"
    by (simp add: load_bert_weights_def Let_def hp fold_heap_untouched)
  have c7: "distinct (map (\<lambda>kp. p_addr (snd kp)) ?kps)
        \<longrightarrow> (\<forall>kp t. kp \<in> set ?kps \<and> map_of ?sd (fst kp) = Some t \<and> t_shape t = p_shape (snd kp)
               \<longrightarrow> cells (res_heap (load_bert_weights cls m sd h)) (p_addr (snd kp)) = t_data t)"
    by (simp add: load_bert_weights_def Let_def hp fold_heap_loaded)
  from c1 c2 mis c4 c5 c6 c7 show ?thesis by blast
qed

lemma ex_rename_full:
  "rename_keys ex_state_dict =
     [(''cls.bias'', \<lparr>t_shape = [3], t_data = (\<lambda>i j. 9)\<rparr>),
      (''encoder.weight'', \<lparr>t_shape = [2, 2], t_data = (\<lambda>i j. 7)\<rparr>)]"
  by (simp add: rename_keys_def rename_key_def new_key_of_def replace_def dict_set_def dict_del_def
      ex_state_dict_def Let_def)

lemma ex_rename_bad:
  "rename_keys ex_bad_state_dict = [(''encoder.weight'', \<lparr>t_shape = [3, 2], t_data = (\<lambda>i j. 7)\<rparr>)]"
  by (simp add: rename_keys_def rename_key_def new_key_of_def replace_def dict_set_def dict_del_def
      ex_bad_state_dict_def Let_def)

lemma ex_named_tensors:
  "named_tensors ex_module [] =
     [(''encoder.weight'', \<lparr>p_addr = 0, p_shape = [2, 2]\<rparr>),
      (''entity_embeddings.weight'', \<lparr>p_addr = 1, p_shape = [4, 2]\<rparr>)]"
  by (simp add: ex_module_def)

lemma ex_loaded_missing:
  "missing_keys (loaded_state ex_module ex_state_dict ex_empty_heap) = [''entity_embeddings.weight'']"
  by (simp add: loaded_state_def ex_rename_full)
     (simp add: ex_module_def load_from_state_dict_def load_param_def is_unexpected_def Let_def)

lemma ex_loaded_unexpected:
  "unexpected_keys (loaded_state ex_module ex_state_dict ex_empty_heap) = [''cls.bias'']"
  by (simp add: loaded_state_def ex_rename_full)
     (simp add: ex_module_def load_from_state_dict_def load_param_def is_unexpected_def Let_def)

lemma ex_loaded_errors:
  "error_msgs (loaded_state ex_module ex_state_dict ex_empty_heap) = []"
  by (simp add: loaded_state_def ex_rename_full)
     (simp add: ex_module_def load_from_state_dict_def load_param_def is_unexpected_def Let_def)


theorem load_bert_weights_outcome_witness:
  "res_raised (load_bert_weights ''LukeModel'' ex_module ex_bad_state_dict ex_empty_heap)
     = Some (RuntimeError ''LukeModel'' [SizeMismatch ''encoder.weight'' [3, 2] [2, 2]])
   \<and> cells (res_heap (load_bert_weights ''LukeModel'' ex_module ex_state_dict ex_empty_heap)) 1
     = cells ex_empty_heap 1
   \<and> cells (res_heap (load_bert_weights ''LukeModel'' ex_module ex_state_dict ex_empty_heap)) 0
     = (\<lambda>i j. 7)"
proof (intro conjI)
  from load_bert_weights_outcome[of "''LukeModel''" ex_module ex_bad_state_dict ex_empty_heap]
  have "res_raised (load_bert_weights ''LukeModel'' ex_module ex_bad_state_dict ex_empty_heap)
     = (if size_mismatches (rename_keys ex_bad_state_dict) (named_tensors ex_module []) = [] then None
        else Some (RuntimeError ''LukeModel''
               (size_mismatches (rename_keys ex_bad_state_dict) (named_tensors ex_module []))))"
    by blast
  then show "res_raised (load_bert_weights ''LukeModel'' ex_module ex_bad_state_dict ex_empty_heap)
     = Some (RuntimeError ''LukeModel'' [SizeMismatch ''encoder.weight'' [3, 2] [2, 2]])"
    by (simp add: ex_rename_bad ex_named_tensors size_mismatches_def)
next
  have "1 \<notin> loaded_addrs (rename_keys ex_state_dict) (named_tensors ex_module [])"
    by (simp add: ex_rename_full ex_named_tensors loaded_addrs_def loadable_def)
  with load_bert_weights_outcome[of "''LukeModel''" ex_module ex_state_dict ex_empty_heap]
  show "cells (res_heap (load_bert_weights ''LukeModel'' ex_module ex_state_dict ex_empty_heap)) 1
     = cells ex_empty_heap 1"
    by blast
next
  let ?kp = "(''encoder.weight'', \<lparr>p_addr = 0, p_shape = [2, 2]\<rparr>)"
  let ?t = "\<lparr>t_shape = [2, 2], t_data = (\<lambda>i j. 7 :: real)\<rparr>"
  have d: "distinct (map (\<lambda>kp. p_addr (snd kp)) (named_tensors ex_module []))"
    by (simp add: ex_named_tensors)
  have k: "?kp \<in> set (named_tensors ex_module []) \<and> map_of (rename_keys ex_state_dict) (fst ?kp) = Some ?t
      \<and> t_shape ?t = p_shape (snd ?kp)"
    by (simp add: ex_named_tensors ex_rename_full)
  from load_bert_weights_outcome[of "''LukeModel''" ex_module ex_state_dict ex_empty_heap] d
  have "\<forall>kp t. kp \<in> set (named_tensors ex_module []) \<and> map_of (rename_keys ex_state_dict) (fst kp) = Some t
                 \<and> t_shape t = p_shape (snd kp)
               \<longrightarrow> cells (res_heap (load_bert_weights ''LukeModel'' ex_module ex_state_dict ex_empty_heap))
                     (p_addr (snd kp)) = t_data t"
    by blast
  from this k have "cells (res_heap (load_bert_weights ''LukeModel'' ex_module ex_state_dict ex_empty_heap))
                     (p_addr (snd ?kp)) = t_data ?t"
    by blast
  then show "cells (res_heap (load_bert_weights ''LukeModel'' ex_module ex_state_dict ex_empty_heap)) 0
     = (\<lambda>i j. 7)"
    by simp
qed

text \<open>
  Loading the checkpoint of a plain transformer into the model of two tensors: the entity
  embedding is missing and nothing is logged about it; the one record logged is at level
  INFO, not WARNING, and lists the unexpected key.
\<close>

theorem missing_keys_not_logged:
  "missing_keys (loaded_state ex_module ex_state_dict ex_empty_heap) = [''entity_embeddings.weight'']
   \<and> res_raised (load_bert_weights ''LukeModel'' ex_module ex_state_dict ex_empty_heap) = None
   \<and> res_log (load_bert_weights ''LukeModel'' ex_module ex_state_dict ex_empty_heap)
       = [\<lparr>level = INFO, log_class = ''LukeModel'', log_keys = [''cls.bias'']\<rparr>]"
  by (simp add: load_bert_weights_def Let_def ex_loaded_missing ex_loaded_unexpected ex_loaded_errors)

end
